theory Spec2Isabelle
  imports Complex_Main "HOL-Library.AList"
begin

section \<open>JavaScript values\<close>

text \<open>
  The editor stores node configurations, message payloads and imported flow documents as
  plain JavaScript values. Numbers are modelled as rationals (the values NaN and the
  infinities are not in the model; an operation that yields NaN returns \<open>None\<close>).
  An object is the list of its own properties in enumeration order, and it stands for a
  tree: a value parsed from JSON text or built afresh, in which no object sits in two
  places. The functions and prototype objects that a property read can find on a prototype
  chain are not values of this type; where the code reads a property under a computed key
  they are accounted for separately (\<open>lookup_type\<close>, \<open>read_member\<close>).
\<close>

datatype jsval =
    Undefined
  | Null
  | Bool bool
  | Num rat
  | Str string
  | Arr "jsval list"
  | Obj "(string \<times> jsval) list"

datatype error = TypeError | SyntaxError

text \<open>Truthiness, as tested by \<open>if (v)\<close>, \<open>!v\<close> and \<open>a || b\<close>.\<close>

fun truthy :: "jsval \<Rightarrow> bool" where
  "truthy Undefined = False"
| "truthy Null = False"
| "truthy (Bool b) = b"
| "truthy (Num r) = (r \<noteq> 0)"
| "truthy (Str s) = (s \<noteq> [])"
| "truthy (Arr xs) = True"
| "truthy (Obj kv) = True"

definition js_or :: "jsval \<Rightarrow> jsval \<Rightarrow> jsval" where
  "js_or a b = (if truthy a then a else b)"

text \<open>Decimal digits of a counter, as a template literal \<open>`${n}`\<close> prints them.\<close>

function dec :: "nat \<Rightarrow> string" where
  "dec n = (if n < 10 then [''0123456789'' ! n]
            else dec (n div 10) @ [''0123456789'' ! (n mod 10)])"
  by pat_completeness auto
termination
  by (relation "measure id") auto

declare dec.simps [simp del]

text \<open>
  The own enumerable properties of a value: what \<open>{...v}\<close> copies and what \<open>v[k]\<close> finds
  first. An array has its indices, a string its characters.
\<close>

fun own_props :: "jsval \<Rightarrow> (string \<times> jsval) list" where
  "own_props (Obj kv) = kv"
| "own_props (Arr xs) = zip (map dec [0..<length xs]) xs"
| "own_props (Str s) = zip (map dec [0..<length s]) (map (\<lambda>c. Str [c]) s)"
| "own_props v = []"

text \<open>
  Property access \<open>v.k\<close>: a TypeError on \<open>undefined\<close> and \<open>null\<close> (\<open>nullish\<close>), otherwise
  \<open>js_prop v k\<close>, which is \<open>undefined\<close> for a missing key.
\<close>

fun nullish :: "jsval \<Rightarrow> bool" where
  "nullish Undefined = True"
| "nullish Null = True"
| "nullish v = False"

definition js_prop :: "jsval \<Rightarrow> string \<Rightarrow> jsval" where
  "js_prop v k =
     (case map_of (own_props v) k of
        Some w \<Rightarrow> w
      | None \<Rightarrow>
          (if k = ''length'' then
             (case v of Arr xs \<Rightarrow> Num (of_nat (length xs))
                      | Str s \<Rightarrow> Num (of_nat (length s))
                      | _ \<Rightarrow> Undefined)
           else Undefined))"

definition js_get :: "jsval \<Rightarrow> string \<Rightarrow> error + jsval" where
  "js_get v k = (if nullish v then Inl TypeError else Inr (js_prop v k))"

text \<open>Reading a key of a configuration object (never \<open>null\<close>): \<open>undefined\<close> when missing.\<close>

definition cfg :: "(string \<times> jsval) list \<Rightarrow> string \<Rightarrow> jsval" where
  "cfg c k = (case map_of c k of Some v \<Rightarrow> v | None \<Rightarrow> Undefined)"

text \<open>
  The own properties of an object are enumerated with the array indices first, in ascending
  order, and the other keys after them in the order in which they were added. An array
  index is the decimal text of a number below \<open>2^32 - 1\<close>.
\<close>

definition index_key :: "string \<Rightarrow> nat option" where
  "index_key k =
     (let n = foldl (\<lambda>acc c. acc * 10 + (of_char c - 48)) 0 k
      in if k = dec n \<and> n < 4294967295 then Some n else None)"

definition enum_order :: "(string \<times> jsval) list \<Rightarrow> (string \<times> jsval) list" where
  "enum_order kv =
     sort_key (\<lambda>(k, v). case index_key k of Some n \<Rightarrow> n | None \<Rightarrow> 0)
              (filter (\<lambda>(k, v). index_key k \<noteq> None) kv)
     @ filter (\<lambda>(k, v). index_key k = None) kv"

text \<open>
  Object spread \<open>{...acc, ...v}\<close> and \<open>Object.assign(acc, v)\<close>: a key that is there keeps its
  place and takes the new value, a new key is added.
\<close>

definition spread :: "(string \<times> jsval) list \<Rightarrow> jsval \<Rightarrow> (string \<times> jsval) list" where
  "spread acc v = enum_order (fold (\<lambda>(k, w). AList.update k w) (own_props v) acc)"

text \<open>
  \<open>JSON.parse(JSON.stringify(v))\<close> for a value held in an object or an array: a property
  whose value is \<open>undefined\<close> is left out, an \<open>undefined\<close> array element becomes \<open>null\<close>.
\<close>

primrec json_value :: "jsval \<Rightarrow> jsval" where
  "json_value Undefined = Undefined"
| "json_value Null = Null"
| "json_value (Bool b) = Bool b"
| "json_value (Num r) = Num r"
| "json_value (Str s) = Str s"
| "json_value (Arr xs) =
     Arr (map (\<lambda>v. if v = Undefined then Null else v) (map json_value xs))"
| "json_value (Obj kv) =
     Obj (filter (\<lambda>(k, v). v \<noteq> Undefined) (map (map_prod id json_value) kv))"

section \<open>Node type registry\<close>

text \<open>
  What \<open>createNode\<close> reads of the value it finds under \<open>NODE_TYPES[type]\<close>: its properties
  \<open>inputs\<close>, \<open>outputs\<close> and \<open>defaults\<close>. The name, the icon, the colour, the category and
  the form schema \<open>configFields\<close> of an entry are used for drawing only and are left out.
\<close>

record nodeType =
  t_inputs :: jsval
  t_outputs :: jsval
  defaults :: jsval

definition NODE_TYPES :: "(string \<times> nodeType) list" where
  "NODE_TYPES =
   [(''input'', \<lparr>t_inputs = Num 0, t_outputs = Num 1,
       defaults = Obj [(''name'', Str ''''), (''value'', Str '''')]\<rparr>),
    (''trigger'', \<lparr>t_inputs = Num 0, t_outputs = Num 1,
       defaults = Obj [(''name'', Str ''''), (''interval'', Str ''1000''), (''repeat'', Bool True)]\<rparr>),
    (''exampleData'', \<lparr>t_inputs = Num 0,
       t_outputs = Num 1,
       defaults = Obj [(''name'', Str ''''), (''dataType'', Str ''object''),
         (''payload'', Str (''{\"temperature\": 23.5, \"humidity\": 65, '' @
                            ''\"timestamp\": \"2024-01-01T00:00:00Z\"}''))]\<rparr>),
    (''function'', \<lparr>t_inputs = Num 1,
       t_outputs = Num 1,
       defaults = Obj [(''name'', Str ''''), (''func'', Str ''return msg;'')]\<rparr>),
    (''filter'', \<lparr>t_inputs = Num 1, t_outputs = Num 1,
       defaults = Obj [(''name'', Str ''''), (''condition'', Str ''msg.payload > 0'')]\<rparr>),
    (''transform'', \<lparr>t_inputs = Num 1,
       t_outputs = Num 1,
       defaults = Obj [(''name'', Str ''''), (''property'', Str ''payload''), (''rules'', Arr [])]\<rparr>),
    (''output'', \<lparr>t_inputs = Num 1, t_outputs = Num 0,
       defaults = Obj [(''name'', Str ''''), (''target'', Str ''console'')]\<rparr>),
    (''debug'', \<lparr>t_inputs = Num 1, t_outputs = Num 0,
       defaults = Obj [(''name'', Str ''''), (''complete'', Str ''payload''),
         (''console'', Bool True)]\<rparr>),
    (''dataTable'', \<lparr>t_inputs = Num 1,
       t_outputs = Num 0,
       defaults = Obj [(''name'', Str ''''), (''maxRows'', Num 10), (''autoWidth'', Bool True),
         (''showHeaders'', Bool True), (''appendData'', Bool False)]\<rparr>),
    (''chartNode'', \<lparr>t_inputs = Num 1, t_outputs = Num 0,
       defaults = Obj [(''name'', Str ''''), (''chartType'', Str ''line''),
         (''xField'', Str ''timestamp''), (''yField'', Str ''value''), (''maxPoints'', Num 50),
         (''autoScale'', Bool True), (''showGrid'', Bool True)]\<rparr>),
    (''graphViz'', \<lparr>t_inputs = Num 1,
       t_outputs = Num 0,
       defaults = Obj [(''name'', Str ''''), (''nodeIdField'', Str ''id''),
         (''nodeLabelField'', Str ''name''), (''edgeSourceField'', Str ''source''),
         (''edgeTargetField'', Str ''target''), (''nodeSize'', Num 15),
         (''showLabels'', Bool True), (''layoutType'', Str ''force'')]\<rparr>),
    (''networkDataSim'', \<lparr>t_inputs = Num 0, t_outputs = Num 1,
       defaults = Obj [(''name'', Str ''''), (''networkType'', Str ''social''),
         (''nodeCount'', Num 8), (''connectivity'', Num (3 / 10)),
         (''includeAttributes'', Bool True)]\<rparr>)]"

text \<open>
  \<open>NODE_TYPES\<close> is a plain object, so \<open>NODE_TYPES[key]\<close> also finds what the object
  inherits from \<open>Object.prototype\<close>: a function, or under \<open>__proto__\<close> the prototype itself.
  Such a value is truthy and has no property \<open>inputs\<close>, \<open>outputs\<close> or \<open>defaults\<close>.
\<close>

definition object_prototype_keys :: "string list" where
  "object_prototype_keys =
     [''constructor'', ''__defineGetter__'', ''__defineSetter__'', ''hasOwnProperty'',
      ''__lookupGetter__'', ''__lookupSetter__'', ''isPrototypeOf'', ''propertyIsEnumerable'',
      ''toString'', ''valueOf'', ''__proto__'', ''toLocaleString'']"

definition registry_entry :: "string \<Rightarrow> nodeType option" where
  "registry_entry key =
     (case map_of NODE_TYPES key of
        Some t \<Rightarrow> Some t
      | None \<Rightarrow>
          (if key \<in> set object_prototype_keys
           then Some \<lparr>t_inputs = Undefined, t_outputs = Undefined, defaults = Undefined\<rparr>
           else None))"

text \<open>
  \<open>NODE_TYPES[type]\<close>: the key is \<open>String(type)\<close>. A string is its own key; an array of one
  element prints as that element does (\<open>null\<close> and \<open>undefined\<close> print as the empty
  string); the printed form of any other value (a number, \<open>true\<close>, \<open>null\<close>, \<open>undefined\<close>,
  \<open>[object Object]\<close>, a list with a comma) is no key of the table or of its prototype.
\<close>

fun lookup_type :: "jsval \<Rightarrow> nodeType option" where
  "lookup_type (Str s) = registry_entry s"
| "lookup_type (Arr [Undefined]) = None"
| "lookup_type (Arr [Null]) = None"
| "lookup_type (Arr [v]) = lookup_type v"
| "lookup_type v = None"

section \<open>Graph store\<close>

text \<open>
  A node object. \<open>node_id\<close>, \<open>node_type\<close>, \<open>node_x\<close> and \<open>node_y\<close> are the fields \<open>id\<close>, \<open>type\<close>,
  \<open>x\<close> and \<open>y\<close>; the reference to the drawn element is left out. The four optional fields
  are the state the message handlers attach to a node (absent until first written).
\<close>

record debugEntry =
  timestamp :: string
  data :: jsval
  fullMessage :: jsval

text \<open>
  A value as the graph visualisation node holds it and as \<open>===\<close> compares it. A primitive
  is compared by value. An object or an array equals nothing but itself: it is kept with
  the path of property names that leads to it from the payload it was read from. A built-in
  function or prototype, found on a prototype chain, is kept under the name the platform
  gives it.
\<close>

datatype ident =
    Value jsval
  | Object "string list" jsval
  | Builtin string

text \<open>
  The mini-graph of a graph visualisation node. A node of it is kept as (id, label), an
  edge as (source, target); the layout coordinates and \<open>originalData\<close> serve the drawing and
  are left out.
\<close>

record networkData =
  nd_nodes :: "(ident \<times> ident) list"
  nd_edges :: "(ident \<times> ident) list"

record node =
  node_id :: string
  node_type :: jsval
  node_x :: jsval
  node_y :: jsval
  width :: nat
  height :: nat
  config :: "(string \<times> jsval) list"
  inputs :: jsval
  outputs :: jsval
  debugOutputs :: "debugEntry list option"
  accumulatedData :: "jsval list option"
  graphData :: "jsval list option"
  networkData :: "networkData option"

text \<open>A link object; \<open>link_id\<close> is its field \<open>id\<close>.\<close>

record link =
  link_id :: string
  source :: string
  sourcePort :: jsval
  target :: string
  targetPort :: jsval

text \<open>The pending connect gesture: the node the drag started from and its output port.\<close>

record connectionStart =
  cs_node :: "node option"
  cs_port :: nat

text \<open>
  The editor instance. \<open>nodes\<close> and \<open>links\<close> are the two \<open>Map\<close>s, kept in insertion order.
  \<open>selectedNode\<close> and \<open>selectedLink\<close> refer to an object of the store and are held as its id.
  \<open>timers\<close> are the deliveries \<open>sendMessage\<close> has scheduled with \<open>setTimeout\<close> and that have
  not run yet: the target node, the message and the link.
\<close>

record editor =
  nodes :: "(string \<times> node) list"
  links :: "(string \<times> link) list"
  selectedNode :: "string option"
  selectedLink :: "string option"
  isConnecting :: bool
  nodeCounter :: nat
  linkCounter :: nat
  connection :: "connectionStart option"
  timers :: "(node \<times> jsval \<times> link) list"

definition new_editor :: editor where
  "new_editor = \<lparr>nodes = [], links = [], selectedNode = None, selectedLink = None,
     isConnecting = False, nodeCounter = 0, linkCounter = 0, connection = None,
     timers = []\<rparr>"

definition createNode ::
  "jsval \<Rightarrow> jsval \<Rightarrow> jsval \<Rightarrow> jsval \<Rightarrow> editor \<Rightarrow> node option \<times> editor" where
  "createNode type x y cfg0 s =
     (let config0 = (if cfg0 = Undefined then Obj [] else cfg0);
          s1 = s\<lparr>nodeCounter := nodeCounter s + 1\<rparr>;
          nodeId = ''node_'' @ dec (nodeCounter s1)
      in case lookup_type type of
           None \<Rightarrow> (None, s1)
         | Some nodeType \<Rightarrow>
             (let nodeConfig = spread (spread [] (defaults nodeType)) config0;
                  node = \<lparr>node_id = nodeId, node_type = type, node_x = x, node_y = y,
                          width = 120, height = 40, config = nodeConfig,
                          inputs = t_inputs nodeType, outputs = t_outputs nodeType,
                          debugOutputs = None, accumulatedData = None, graphData = None,
                          networkData = None\<rparr>
              in (Some node, s1\<lparr>nodes := AList.update nodeId node (nodes s1)\<rparr>)))"

definition createConnection ::
  "node \<Rightarrow> jsval \<Rightarrow> node \<Rightarrow> jsval \<Rightarrow> editor \<Rightarrow> link \<times> editor" where
  "createConnection sourceNode sourcePort0 targetNode targetPort0 s =
     (let s1 = s\<lparr>linkCounter := linkCounter s + 1\<rparr>;
          linkId = ''link_'' @ dec (linkCounter s1);
          link = \<lparr>link_id = linkId, source = node_id sourceNode, sourcePort = sourcePort0,
                  target = node_id targetNode, targetPort = targetPort0\<rparr>
      in (link, s1\<lparr>links := AList.update linkId link (links s1)\<rparr>))"

definition clearSelection :: "editor \<Rightarrow> editor" where
  "clearSelection s = s\<lparr>selectedNode := None, selectedLink := None\<rparr>"

definition selectNode :: "node \<Rightarrow> editor \<Rightarrow> editor" where
  "selectNode n s = (clearSelection s)\<lparr>selectedNode := Some (node_id n)\<rparr>"

definition selectLink :: "link \<Rightarrow> editor \<Rightarrow> editor" where
  "selectLink l s = (clearSelection s)\<lparr>selectedLink := Some (link_id l)\<rparr>"

definition moveNode :: "string \<Rightarrow> jsval \<Rightarrow> jsval \<Rightarrow> editor \<Rightarrow> editor" where
  "moveNode nodeId x y s =
     s\<lparr>nodes := map (\<lambda>(k, n). if k = nodeId then (k, n\<lparr>node_x := x, node_y := y\<rparr>) else (k, n))
                   (nodes s)\<rparr>"

definition deleteLink :: "string \<Rightarrow> editor \<Rightarrow> editor" where
  "deleteLink linkId s =
     (case map_of (links s) linkId of
        None \<Rightarrow> s
      | Some l \<Rightarrow>
          (let s1 = s\<lparr>links := AList.delete linkId (links s)\<rparr>
           in if selectedLink s1 = Some linkId then clearSelection s1 else s1))"

text \<open>
  \<open>deleteNode\<close> also empties the tables, charts and accumulated data of the node object; the
  object leaves the store in the same call, so the store does not show it.
\<close>

definition deleteNode :: "string \<Rightarrow> editor \<Rightarrow> editor" where
  "deleteNode nodeId s =
     (case map_of (nodes s) nodeId of
        None \<Rightarrow> s
      | Some n \<Rightarrow>
          (let linksToDelete =
                 map fst (filter (\<lambda>(linkId, l). source l = nodeId \<or> target l = nodeId) (links s));
               s1 = fold deleteLink linksToDelete s;
               s2 = s1\<lparr>nodes := AList.delete nodeId (nodes s1)\<rparr>
           in if selectedNode s2 = Some nodeId then clearSelection s2 else s2))"

definition deleteSelected :: "editor \<Rightarrow> editor" where
  "deleteSelected s =
     (case selectedNode s of
        Some nodeId \<Rightarrow> deleteNode nodeId s
      | None \<Rightarrow> (case selectedLink s of Some linkId \<Rightarrow> deleteLink linkId s | None \<Rightarrow> s))"

definition clearAll :: "editor \<Rightarrow> editor" where
  "clearAll s = clearSelection (s\<lparr>nodes := [], links := []\<rparr>)"

section \<open>Message handlers\<close>

text \<open>
  A message is the object \<open>{payload, topic, timestamp, source}\<close> built by the data-source
  node. \<open>executeDebugNode\<close> takes the clock reading \<open>new Date().toLocaleTimeString()\<close> as
  \<open>now\<close>. It has no \<open>try\<close>: reading \<open>message.payload\<close> of a missing message throws before the
  node is touched.
\<close>

definition executeDebugNode :: "string \<Rightarrow> node \<Rightarrow> jsval \<Rightarrow> error + node" where
  "executeDebugNode now n message =
     (if cfg (config n) ''complete'' = Str ''payload'' \<and> nullish message then Inl TypeError
      else
        (let output = (if cfg (config n) ''complete'' = Str ''payload''
                       then js_prop message ''payload'' else message);
             outs0 = (case debugOutputs n of None \<Rightarrow> [] | Some outs \<Rightarrow> outs);
             debugEntry = \<lparr>timestamp = now, data = output, fullMessage = message\<rparr>;
             outs1 = debugEntry # outs0
         in Inr (n\<lparr>debugOutputs :=
                     Some (if length outs1 > 10 then take 10 outs1 else outs1)\<rparr>)))"

text \<open>
  The node after a sequence of deliveries, each with its clock reading; a delivery whose
  handler throws leaves the node as it was.
\<close>

fun debug_run :: "node \<Rightarrow> (string \<times> jsval) list \<Rightarrow> node" where
  "debug_run n [] = n"
| "debug_run n ((now, message) # rest) =
     (case executeDebugNode now n message of
        Inl e \<Rightarrow> debug_run n rest
      | Inr n' \<Rightarrow> debug_run n' rest)"

text \<open>
  The entry the handler records for a delivery, and the list a node retains (empty while
  the field is absent): the two notions the ring-buffer statement is phrased in.
\<close>

definition debug_entry_for :: "node \<Rightarrow> string \<times> jsval \<Rightarrow> debugEntry" where
  "debug_entry_for n tm =
     \<lparr>timestamp = fst tm,
      data = (if cfg (config n) ''complete'' = Str ''payload''
              then js_prop (snd tm) ''payload'' else snd tm),
      fullMessage = snd tm\<rparr>"

definition retained_entries :: "node \<Rightarrow> debugEntry list" where
  "retained_entries n = (case debugOutputs n of None \<Rightarrow> [] | Some outs \<Rightarrow> outs)"

section \<open>Pointer and keyboard gestures\<close>

text \<open>
  What a handler reads from the event: the element under the pointer is a port of a drawn
  node (the node id and port index come from the element's data attributes) or
  something else.
\<close>

datatype portType = InputPort | OutputPort

datatype eventTarget = PortElement string portType nat | OtherElement

definition onNodeMouseDown :: "string \<Rightarrow> editor \<Rightarrow> editor" where
  "onNodeMouseDown nodeId s =
     (case map_of (nodes s) nodeId of None \<Rightarrow> s | Some n \<Rightarrow> selectNode n s)"

definition startConnection :: "node option \<Rightarrow> nat \<Rightarrow> editor \<Rightarrow> editor" where
  "startConnection sourceNode outputIndex s =
     s\<lparr>isConnecting := True,
       connection := Some \<lparr>cs_node = sourceNode, cs_port = outputIndex\<rparr>\<rparr>"

definition onPortMouseDown :: "string \<Rightarrow> portType \<Rightarrow> nat \<Rightarrow> editor \<Rightarrow> editor" where
  "onPortMouseDown nodeId pt portIndex s =
     (if pt = OutputPort then startConnection (map_of (nodes s) nodeId) portIndex s else s)"

definition endConnection :: "editor \<Rightarrow> editor" where
  "endConnection s = s\<lparr>isConnecting := False, connection := None\<rparr>"

text \<open>
  Releasing the pointer. \<open>targetNode !== this.connectionStart.node\<close> compares object
  identities; two node objects of one editor are the same object exactly when their ids
  are equal. Should the gesture have started on a port whose node was not in the store,
  \<open>createConnection\<close> throws on reading \<open>sourceNode.id\<close>, after it has counted the link id,
  and the gesture is not ended; reading \<open>this.connectionStart.node\<close> of a missing gesture
  record throws as well.
\<close>

definition onConnectionMouseUp :: "eventTarget \<Rightarrow> editor \<Rightarrow> editor" where
  "onConnectionMouseUp tgt s =
     (if isConnecting s then
        (case tgt of
           PortElement targetNodeId InputPort targetPortIndex \<Rightarrow>
             (case map_of (nodes s) targetNodeId of
                None \<Rightarrow> endConnection s
              | Some targetNode \<Rightarrow>
                  (case connection s of
                     None \<Rightarrow> s
                   | Some start \<Rightarrow>
                       (case cs_node start of
                          None \<Rightarrow> s\<lparr>linkCounter := linkCounter s + 1\<rparr>
                        | Some sourceNode \<Rightarrow>
                            (if node_id targetNode \<noteq> node_id sourceNode
                             then endConnection
                                    (snd (createConnection sourceNode
                                            (Num (of_nat (cs_port start)))
                                            targetNode (Num (of_nat targetPortIndex)) s))
                             else endConnection s))))
         | _ \<Rightarrow> endConnection s)
      else s)"

definition onKeyDown :: "string \<Rightarrow> editor \<Rightarrow> editor" where
  "onKeyDown key s =
     (if key = ''Delete'' \<or> key = ''Backspace'' then deleteSelected s
      else if key = ''Escape'' then
        (let s1 = clearSelection s in if isConnecting s1 then endConnection s1 else s1)
      else s)"

section \<open>Export and import\<close>

text \<open>
  \<open>exportFlow\<close> returns \<open>JSON.stringify(flow)\<close>; the model gives the document that
  \<open>JSON.parse\<close> reads back from that text.
\<close>

definition exportFlow :: "editor \<Rightarrow> jsval" where
  "exportFlow s =
     json_value (Obj
       [(''nodes'', Arr (map (\<lambda>n. Obj [(''id'', Str (node_id n)), (''type'', node_type n),
                                        (''x'', node_x n), (''y'', node_y n),
                                        (''config'', Obj (spread [] (Obj (config n))))])
                            (map snd (nodes s)))),
        (''links'', Arr (map (\<lambda>l. Obj [(''source'', Str (source l)),
                                        (''sourcePort'', sourcePort l),
                                        (''target'', Str (target l)),
                                        (''targetPort'', targetPort l)])
                            (map snd (links s))))])"

text \<open>
  The two loops of \<open>importFlow\<close>. Each returns the error that ended it, if one did, with
  the state reached by then. \<open>import_nodes\<close> also hands back what \<open>createNode\<close> returned
  in each round (the callback drops it). In \<open>import_links\<close> the callback of \<open>find\<close> reads
  \<open>linkData.source\<close>, so a \<open>null\<close> entry throws only when the store has a node to test.
\<close>

fun import_nodes :: "jsval list \<Rightarrow> editor \<Rightarrow> error option \<times> node option list \<times> editor" where
  "import_nodes [] s = (None, [], s)"
| "import_nodes (nodeData # rest) s =
     (if nullish nodeData then (Some TypeError, [], s)
      else
        (let (created, s1) = createNode (js_prop nodeData ''type'') (js_prop nodeData ''x'')
                               (js_prop nodeData ''y'') (js_prop nodeData ''config'') s;
             (err, more, s2) = import_nodes rest s1
         in (err, created # more, s2)))"

fun import_links :: "jsval list \<Rightarrow> editor \<Rightarrow> error option \<times> editor" where
  "import_links [] s = (None, s)"
| "import_links (linkData # rest) s =
     (if nullish linkData \<and> nodes s \<noteq> [] then (Some TypeError, s)
      else
        (let sourceNode = find (\<lambda>n. Str (node_id n) = js_prop linkData ''source'')
                            (map snd (nodes s));
             targetNode = find (\<lambda>n. Str (node_id n) = js_prop linkData ''target'')
                            (map snd (nodes s))
         in case (sourceNode, targetNode) of
              (Some a, Some b) \<Rightarrow>
                import_links rest
                  (snd (createConnection a (js_prop linkData ''sourcePort'')
                          b (js_prop linkData ''targetPort'') s))
            | _ \<Rightarrow> import_links rest s))"

text \<open>
  \<open>importFlow\<close>, given what \<open>JSON.parse(flowData)\<close> did: \<open>Inl SyntaxError\<close> when it threw,
  the document otherwise. \<open>flow.nodes.forEach\<close> and \<open>flow.links.forEach\<close> throw a TypeError
  unless the property is an array. The \<open>catch\<close> logs the error and keeps the state as it is
  at that moment; the result pairs the logged error with that state.
\<close>

definition importFlow :: "error + jsval \<Rightarrow> editor \<Rightarrow> error option \<times> editor" where
  "importFlow parsed s =
     (case parsed of
        Inl e \<Rightarrow> (Some e, s)
      | Inr flow \<Rightarrow>
          (let s1 = clearAll s
           in if nullish flow then (Some TypeError, s1)
              else
                (case js_prop flow ''nodes'' of
                   Arr nodeDatas \<Rightarrow>
                     (case import_nodes nodeDatas s1 of
                        (Some e, created, s2) \<Rightarrow> (Some e, s2)
                      | (None, created, s2) \<Rightarrow>
                          (case js_prop flow ''links'' of
                             Arr linkDatas \<Rightarrow> import_links linkDatas s2
                           | _ \<Rightarrow> (Some TypeError, s2)))
                 | _ \<Rightarrow> (Some TypeError, s1))))"

section \<open>Printing and parsing\<close>

text \<open>
  \<open>String(v)\<close>, as used for a computed property key \<open>item[v]\<close> and as the first step of
  \<open>parseInt(v)\<close>. A whole number below \<open>10^21\<close> prints its decimal digits. The text of any
  other number is the platform's affair: it is the parameter \<open>numText\<close>. In an array,
  \<open>null\<close> and \<open>undefined\<close> print as the empty string.
\<close>

definition int_text :: "int \<Rightarrow> string" where
  "int_text i = (if i < 0 then CHR ''-'' # dec (nat (- i)) else dec (nat i))"

fun comma_join :: "string list \<Rightarrow> string" where
  "comma_join [] = []"
| "comma_join [t] = t"
| "comma_join (t # ts) = t @ '','' @ comma_join ts"

primrec js_String :: "(rat \<Rightarrow> string) \<Rightarrow> jsval \<Rightarrow> string" where
  "js_String numText Undefined = ''undefined''"
| "js_String numText Null = ''null''"
| "js_String numText (Bool b) = (if b then ''true'' else ''false'')"
| "js_String numText (Num r) =
     (if of_int \<lfloor>r\<rfloor> = r \<and> \<bar>r\<bar> < 10 ^ 21 then int_text \<lfloor>r\<rfloor> else numText r)"
| "js_String numText (Str s) = s"
| "js_String numText (Arr xs) =
     comma_join (map2 (\<lambda>v t. if nullish v then [] else t) xs (map (js_String numText) xs))"
| "js_String numText (Obj kv) = ''[object Object]''"

text \<open>Computed property access \<open>v[k]\<close> on a value that is not \<open>null\<close> or \<open>undefined\<close>.\<close>

definition js_index :: "(rat \<Rightarrow> string) \<Rightarrow> jsval \<Rightarrow> jsval \<Rightarrow> jsval" where
  "js_index numText v k = js_prop v (js_String numText k)"

text \<open>
  \<open>parseInt\<close> of a text: leading white space, a sign, an optional \<open>0x\<close> prefix, then the
  longest run of digits of the base. \<open>None\<close> is NaN.
\<close>

definition is_space :: "char \<Rightarrow> bool" where
  "is_space c = (c \<in> set [CHR '' '', CHR 0x09, CHR 0x0A, CHR 0x0B, CHR 0x0C, CHR 0x0D])"

definition digit_value :: "char \<Rightarrow> nat" where
  "digit_value c =
     (let k = (of_char c :: nat)
      in if 48 \<le> k \<and> k \<le> 57 then k - 48
         else if 97 \<le> k \<and> k \<le> 122 then k - 87
         else if 65 \<le> k \<and> k \<le> 90 then k - 55
         else 36)"

definition digits_value :: "nat \<Rightarrow> string \<Rightarrow> nat" where
  "digits_value base ds = foldl (\<lambda>acc c. acc * base + digit_value c) 0 ds"

definition parse_int_text :: "string \<Rightarrow> int option" where
  "parse_int_text s =
     (let t = dropWhile is_space s;
          (neg, u) = (case t of
                        c # r \<Rightarrow> (if c = CHR ''-'' then (True, r)
                                   else if c = CHR ''+'' then (False, r) else (False, t))
                      | [] \<Rightarrow> (False, t));
          (base, w) = (case u of
                         c # x # r \<Rightarrow> (if c = CHR ''0'' \<and> (x = CHR ''x'' \<or> x = CHR ''X'')
                                       then (16, r) else (10, u))
                       | _ \<Rightarrow> (10, u));
          ds = takeWhile (\<lambda>c. digit_value c < base) w
      in if ds = [] then None
         else Some ((if neg then - 1 else 1) * int (digits_value base ds)))"

definition js_parseInt :: "(rat \<Rightarrow> string) \<Rightarrow> jsval \<Rightarrow> int option" where
  "js_parseInt numText v = parse_int_text (js_String numText v)"

text \<open>\<open>parseInt(v) || d\<close>: the default replaces NaN and 0.\<close>

definition parseInt_or :: "(rat \<Rightarrow> string) \<Rightarrow> jsval \<Rightarrow> int \<Rightarrow> int" where
  "parseInt_or numText v d =
     (case js_parseInt numText v of None \<Rightarrow> d | Some k \<Rightarrow> if k = 0 then d else k)"

text \<open>\<open>xs.slice(start)\<close>: a negative start counts from the end.\<close>

definition slice_from :: "int \<Rightarrow> 'a list \<Rightarrow> 'a list" where
  "slice_from start xs =
     (if start < 0 then drop (nat (max 0 (int (length xs) + start))) xs
      else drop (nat start) xs)"

section \<open>Message propagation\<close>

text \<open>
  \<open>sendMessage\<close> finds the links leaving the node and, for each whose target is in the
  store, schedules \<open>receiveMessage(targetNode, message, link)\<close> with \<open>setTimeout\<close>.
\<close>

definition sendMessage :: "node \<Rightarrow> jsval \<Rightarrow> editor \<Rightarrow> editor" where
  "sendMessage sourceNode message s =
     (let outgoingLinks = filter (\<lambda>l. source l = node_id sourceNode) (map snd (links s))
      in s\<lparr>timers := timers s @
            concat (map (\<lambda>l. case map_of (nodes s) (target l) of
                                None \<Rightarrow> []
                              | Some targetNode \<Rightarrow> [(targetNode, message, l)])
                        outgoingLinks)\<rparr>)"

text \<open>
  The function node: \<open>processedMessage = { ...message }\<close>, then \<open>sendMessage\<close>. The source
  comments: "For now, just pass the message through unchanged".
\<close>

definition executeFunctionNode :: "node \<Rightarrow> jsval \<Rightarrow> editor \<Rightarrow> editor" where
  "executeFunctionNode n message s =
     (let processedMessage = Obj (spread [] message)
      in sendMessage n processedMessage s)"

text \<open>
  The data table node. The payload becomes a list of rows; in append mode the rows are
  added to \<open>accumulatedData\<close> and the list is cut to \<open>maxRows\<close> from the end. A missing
  message throws inside the \<open>try\<close>, before the node is written. Drawing the table comes
  after the node is written and is left out.
\<close>

definition table_rows :: "jsval \<Rightarrow> jsval list" where
  "table_rows newData =
     (case newData of
        Arr rows \<Rightarrow> rows
      | Obj kv \<Rightarrow> [newData]
      | _ \<Rightarrow> [Obj [(''value'', newData)]])"

definition executeDataTableNode :: "(rat \<Rightarrow> string) \<Rightarrow> node \<Rightarrow> jsval \<Rightarrow> node" where
  "executeDataTableNode numText n message =
     (if nullish message then n
      else
        (let newData = table_rows (js_prop message ''payload'')
         in if truthy (cfg (config n) ''appendData'') then
              (let acc0 = (case accumulatedData n of None \<Rightarrow> [] | Some rows \<Rightarrow> rows);
                   acc1 = acc0 @ newData;
                   maxRows = parseInt_or numText (cfg (config n) ''maxRows'') 10
               in n\<lparr>accumulatedData :=
                       Some (if int (length acc1) > maxRows then slice_from (- maxRows) acc1
                             else acc1)\<rparr>)
            else n\<lparr>accumulatedData := Some newData\<rparr>))"

text \<open>
  The chart node. \<open>parseFloat\<close> and the clock are the platform's; \<open>clock i\<close> is the pair of
  readings (\<open>toISOString()\<close>, \<open>getTime()\<close>) taken for the \<open>i\<close>-th item. A point is the
  object \<open>{x, y, timestamp}\<close>. Points are pushed one by one, so an item that throws (a
  \<open>null\<close> item) leaves the points pushed before it and skips the cut to \<open>maxPoints\<close>.
\<close>

fun chart_points ::
  "(rat \<Rightarrow> string) \<Rightarrow> (jsval \<Rightarrow> rat option) \<Rightarrow> (nat \<Rightarrow> string \<times> rat) \<Rightarrow> node \<Rightarrow>
   nat \<Rightarrow> jsval list \<Rightarrow> jsval list \<Rightarrow> error option \<times> jsval list" where
  "chart_points numText parseFloat clock n i [] g = (None, g)"
| "chart_points numText parseFloat clock n i (item # rest) g =
     (if nullish item then (Some TypeError, g)
      else
        (let xField = js_or (cfg (config n) ''xField'') (Str ''timestamp'');
             yField = js_or (cfg (config n) ''yField'') (Str ''value'');
             xValue = (if xField = Str ''timestamp'' \<and> \<not> truthy (js_index numText item xField)
                       then Str (fst (clock i)) else js_index numText item xField);
             yValue = js_index numText item yField;
             g1 = (if xValue \<noteq> Undefined \<and> yValue \<noteq> Undefined
                   then g @ [Obj [(''x'', xValue),
                                  (''y'', Num (case parseFloat yValue of
                                                 None \<Rightarrow> 0 | Some r \<Rightarrow> r)),
                                  (''timestamp'', Num (snd (clock i)))]]
                   else g)
         in chart_points numText parseFloat clock n (i + 1) rest g1))"

definition executeChartNode ::
  "(rat \<Rightarrow> string) \<Rightarrow> (jsval \<Rightarrow> rat option) \<Rightarrow> (nat \<Rightarrow> string \<times> rat) \<Rightarrow> node \<Rightarrow> jsval \<Rightarrow>
   node" where
  "executeChartNode numText parseFloat clock n message =
     (if nullish message then n
      else
        (case (case js_prop message ''payload'' of
                 Arr items \<Rightarrow> Some items
               | Obj kv \<Rightarrow> Some [Obj kv]
               | _ \<Rightarrow> None) of
           None \<Rightarrow> n
         | Some items \<Rightarrow>
             (let g0 = (case graphData n of None \<Rightarrow> [] | Some g \<Rightarrow> g)
              in case chart_points numText parseFloat clock n 0 items g0 of
                   (Some e, g1) \<Rightarrow> n\<lparr>graphData := Some g1\<rparr>
                 | (None, g1) \<Rightarrow>
                     (let maxPoints = parseInt_or numText (cfg (config n) ''maxPoints'') 50
                      in n\<lparr>graphData :=
                              Some (if int (length g1) > maxPoints
                                    then slice_from (- maxPoints) g1 else g1)\<rparr>))))"

text \<open>
  The graph visualisation node. \<open>own_member path v k\<close> is the own property \<open>k\<close> of the value
  \<open>v\<close> that sits at \<open>path\<close> in the payload. \<open>read_member\<close> is the read \<open>v[k]\<close> under a computed
  key: the own property when \<open>v\<close> has one, and otherwise what the prototype chain of \<open>v\<close>
  provides under that name, which is the platform's affair: \<open>inherited v k\<close> names the
  built-in value found, if there is one. A built-in value is a function or a prototype
  object, hence truthy.
\<close>

definition is_object :: "jsval \<Rightarrow> bool" where
  "is_object v = (case v of Arr xs \<Rightarrow> True | Obj kv \<Rightarrow> True | _ \<Rightarrow> False)"

primrec truthy_id :: "ident \<Rightarrow> bool" where
  "truthy_id (Value v) = truthy v"
| "truthy_id (Object path v) = True"
| "truthy_id (Builtin name) = True"

definition id_or :: "ident \<Rightarrow> ident \<Rightarrow> ident" where
  "id_or a b = (if truthy_id a then a else b)"

definition ident_of :: "string list \<Rightarrow> jsval \<Rightarrow> ident" where
  "ident_of path v = (if is_object v then Object path v else Value v)"

definition own_member :: "string list \<Rightarrow> jsval \<Rightarrow> string \<Rightarrow> ident" where
  "own_member path v k = ident_of (path @ [k]) (js_prop v k)"

definition has_own :: "jsval \<Rightarrow> string \<Rightarrow> bool" where
  "has_own v k =
     (k \<in> set (map fst (own_props v))
      \<or> (k = ''length'' \<and> (case v of Arr xs \<Rightarrow> True | Str t \<Rightarrow> True | _ \<Rightarrow> False)))"

definition read_member ::
  "(jsval \<Rightarrow> string \<Rightarrow> string option) \<Rightarrow> string list \<Rightarrow> jsval \<Rightarrow> string \<Rightarrow> ident" where
  "read_member inherited path v k =
     (if has_own v k then own_member path v k
      else (case inherited v k of Some name \<Rightarrow> Builtin name | None \<Rightarrow> Value Undefined))"

definition add_graph_node :: "ident \<Rightarrow> ident \<Rightarrow> networkData \<Rightarrow> networkData" where
  "add_graph_node i lbl g =
     (if find (\<lambda>n. fst n = i) (nd_nodes g) = None
      then g\<lparr>nd_nodes := nd_nodes g @ [(i, lbl)]\<rparr> else g)"

text \<open>
  An entry \<open>v\<close> of an array-valued property: a string or a number becomes an edge from the
  item's node to \<open>v\<close>.
\<close>

definition array_connection :: "ident \<Rightarrow> jsval \<Rightarrow> networkData \<Rightarrow> networkData" where
  "array_connection nodeId v g =
     (if (case v of Str t \<Rightarrow> True | Num r \<Rightarrow> True | _ \<Rightarrow> False) \<and> truthy_id nodeId
         \<and> Value v \<noteq> nodeId
      then (if find (\<lambda>e. fst e = nodeId \<and> snd e = Value v) (nd_edges g) = None
            then add_graph_node (Value v) (Value v)
                   (g\<lparr>nd_edges := nd_edges g @ [(nodeId, Value v)]\<rparr>)
            else g)
      else g)"

text \<open>\<open>processDataItem\<close> for the item that sits at \<open>path\<close> in the payload.\<close>

definition processDataItem ::
  "(jsval \<Rightarrow> string \<Rightarrow> string option) \<Rightarrow> (rat \<Rightarrow> string) \<Rightarrow> networkData \<Rightarrow> string list \<Rightarrow>
   jsval \<Rightarrow> jsval \<Rightarrow> jsval \<Rightarrow> jsval \<Rightarrow> jsval \<Rightarrow> networkData" where
  "processDataItem inherited numText g path item nodeIdField nodeLabelField edgeSourceField
     edgeTargetField =
     (let nodeId = read_member inherited path item (js_String numText nodeIdField);
          nodeLabel = id_or (read_member inherited path item (js_String numText nodeLabelField))
                            nodeId;
          g1 = (if truthy_id nodeId then add_graph_node nodeId nodeLabel g else g);
          sourceId = read_member inherited path item (js_String numText edgeSourceField);
          targetId = read_member inherited path item (js_String numText edgeTargetField);
          g2 = (if truthy_id sourceId \<and> truthy_id targetId
                then (if find (\<lambda>e. fst e = sourceId \<and> snd e = targetId) (nd_edges g1) = None
                      then fold (\<lambda>i. add_graph_node i i) [sourceId, targetId]
                             (g1\<lparr>nd_edges := nd_edges g1 @ [(sourceId, targetId)]\<rparr>)
                      else g1)
                else g1)
      in fold (\<lambda>(key, value) g'. case value of
                                    Arr vs \<Rightarrow> fold (array_connection nodeId) vs g'
                                  | _ \<Rightarrow> g')
              (own_props item) g2)"

text \<open>
  \<open>processNetworkData\<close> starts with "Clear existing data". The items of an array payload are
  taken with their indices, which are their paths. For a payload \<open>{nodes, edges}\<close> the two
  lists are mapped; \<open>map\<close> throws on a value that is not an array and on a \<open>null\<close> element,
  and the field assigned before the throw stays. The result pairs the error thrown, if
  any, with the node.
\<close>

definition processNetworkData ::
  "(jsval \<Rightarrow> string \<Rightarrow> string option) \<Rightarrow> (rat \<Rightarrow> string) \<Rightarrow> node \<Rightarrow> jsval \<Rightarrow>
   error option \<times> node" where
  "processNetworkData inherited numText n dat =
     (let nodeIdField = js_or (cfg (config n) ''nodeIdField'') (Str ''id'');
          nodeLabelField = js_or (cfg (config n) ''nodeLabelField'') (Str ''name'');
          edgeSourceField = js_or (cfg (config n) ''edgeSourceField'') (Str ''source'');
          edgeTargetField = js_or (cfg (config n) ''edgeTargetField'') (Str ''target'');
          g0 = \<lparr>nd_nodes = [], nd_edges = []\<rparr>
      in case dat of
           Arr items \<Rightarrow>
             (None, n\<lparr>networkData := Some
                (fold (\<lambda>(key, item) g.
                         if is_object item
                         then processDataItem inherited numText g [key] item nodeIdField
                                nodeLabelField edgeSourceField edgeTargetField
                         else g)
                      (own_props dat) g0)\<rparr>)
         | Obj kv \<Rightarrow>
             (if truthy (js_prop dat ''nodes'') \<and> truthy (js_prop dat ''edges'') then
                (case js_prop dat ''nodes'' of
                   Arr ns \<Rightarrow>
                     (if \<exists>m \<in> set ns. nullish m then (Some TypeError, n\<lparr>networkData := Some g0\<rparr>)
                      else
                        (let g1 = g0\<lparr>nd_nodes :=
                               map (\<lambda>(key, m).
                                      (id_or (read_member inherited [''nodes'', key] m
                                                (js_String numText nodeIdField))
                                             (own_member [''nodes'', key] m ''id''),
                                       id_or (id_or (read_member inherited [''nodes'', key] m
                                                       (js_String numText nodeLabelField))
                                                    (own_member [''nodes'', key] m ''name''))
                                             (own_member [''nodes'', key] m ''id'')))
                                   (own_props (Arr ns))\<rparr>
                         in case js_prop dat ''edges'' of
                              Arr es \<Rightarrow>
                                (if \<exists>e \<in> set es. nullish e
                                 then (Some TypeError, n\<lparr>networkData := Some g1\<rparr>)
                                 else (None, n\<lparr>networkData := Some (g1\<lparr>nd_edges :=
                                     map (\<lambda>(key, e).
                                            (id_or (read_member inherited [''edges'', key] e
                                                      (js_String numText edgeSourceField))
                                                   (own_member [''edges'', key] e ''source''),
                                             id_or (read_member inherited [''edges'', key] e
                                                      (js_String numText edgeTargetField))
                                                   (own_member [''edges'', key] e ''target'')))
                                         (own_props (Arr es))\<rparr>)\<rparr>))
                            | _ \<Rightarrow> (Some TypeError, n\<lparr>networkData := Some g1\<rparr>)))
                 | _ \<Rightarrow> (Some TypeError, n\<lparr>networkData := Some g0\<rparr>))
              else (None, n\<lparr>networkData := Some
                      (processDataItem inherited numText g0 [] dat nodeIdField nodeLabelField
                         edgeSourceField edgeTargetField)\<rparr>))
         | _ \<Rightarrow> (None, n\<lparr>networkData := Some g0\<rparr>))"

definition executeGraphVizNode ::
  "(jsval \<Rightarrow> string \<Rightarrow> string option) \<Rightarrow> (rat \<Rightarrow> string) \<Rightarrow> node \<Rightarrow> jsval \<Rightarrow> node" where
  "executeGraphVizNode inherited numText n message =
     (if nullish message then n
      else
        (let dat = js_prop message ''payload'';
             n1 = (case networkData n of
                     None \<Rightarrow> n\<lparr>networkData := Some \<lparr>nd_nodes = [], nd_edges = []\<rparr>\<rparr>
                   | Some g \<Rightarrow> n)
         in snd (processNetworkData inherited numText n1 dat)))"

text \<open>
  The buttons that empty a node's collected data. \<open>clearDebugOutput\<close> acts only when the
  node has a list already.
\<close>

definition update_node :: "string \<Rightarrow> (node \<Rightarrow> node) \<Rightarrow> editor \<Rightarrow> editor" where
  "update_node nodeId f s =
     s\<lparr>nodes := map (\<lambda>(k, n). if k = nodeId then (k, f n) else (k, n)) (nodes s)\<rparr>"

definition clearDebugOutput :: "string \<Rightarrow> editor \<Rightarrow> editor" where
  "clearDebugOutput nodeId s =
     update_node nodeId
       (\<lambda>n. case debugOutputs n of None \<Rightarrow> n | Some outs \<Rightarrow> n\<lparr>debugOutputs := Some []\<rparr>) s"

definition clearTableData :: "string \<Rightarrow> editor \<Rightarrow> editor" where
  "clearTableData nodeId s = update_node nodeId (\<lambda>n. n\<lparr>accumulatedData := Some []\<rparr>) s"

definition clearGraphData :: "string \<Rightarrow> editor \<Rightarrow> editor" where
  "clearGraphData nodeId s = update_node nodeId (\<lambda>n. n\<lparr>graphData := Some []\<rparr>) s"

definition clearNetworkData :: "string \<Rightarrow> editor \<Rightarrow> editor" where
  "clearNetworkData nodeId s =
     update_node nodeId (\<lambda>n. n\<lparr>networkData := Some \<lparr>nd_nodes = [], nd_edges = []\<rparr>\<rparr>) s"

text \<open>
  \<open>receiveMessage\<close> switches on the node type. A handler writes to the node object it was
  given; the store shows the change when it still holds that object. The functions of the
  platform that the handlers call are gathered in one record. \<open>inheritedMember\<close> is the
  \<open>inherited\<close> of \<open>read_member\<close>. \<open>roundDouble x\<close> is the double nearest to \<open>x\<close>: the value of
  an arithmetic operation whose exact result is \<open>x\<close>, and of a decimal literal \<open>x\<close>.
\<close>

record platform =
  numText :: "rat \<Rightarrow> string"
  parseFloat :: "jsval \<Rightarrow> rat option"
  clock :: "nat \<Rightarrow> string \<times> rat"
  localeTime :: string
  inheritedMember :: "jsval \<Rightarrow> string \<Rightarrow> string option"
  roundDouble :: "rat \<Rightarrow> rat"

definition receiveMessage :: "platform \<Rightarrow> node \<Rightarrow> jsval \<Rightarrow> link \<Rightarrow> editor \<Rightarrow> editor" where
  "receiveMessage p n message l s =
     (if node_type n = Str ''debug'' then
        (case executeDebugNode (localeTime p) n message of
           Inl e \<Rightarrow> s
         | Inr n' \<Rightarrow> update_node (node_id n) (\<lambda>m. n') s)
      else if node_type n = Str ''output'' then s
      else if node_type n = Str ''function'' then executeFunctionNode n message s
      else if node_type n = Str ''dataTable'' then
        update_node (node_id n) (\<lambda>m. executeDataTableNode (numText p) n message) s
      else if node_type n = Str ''chartNode'' then
        update_node (node_id n)
          (\<lambda>m. executeChartNode (numText p) (parseFloat p) (clock p) n message) s
      else if node_type n = Str ''graphViz'' then
        update_node (node_id n)
          (\<lambda>m. executeGraphVizNode (inheritedMember p) (numText p) n message) s
      else s)"

text \<open>
  A timer set by \<open>sendMessage\<close> runs: the oldest delivery is taken and handed to
  \<open>receiveMessage\<close> with the node object as it is now.
\<close>

definition fireTimer :: "platform \<Rightarrow> editor \<Rightarrow> editor" where
  "fireTimer p s =
     (case timers s of
        [] \<Rightarrow> s
      | (targetNode, message, l) # rest \<Rightarrow>
          (let s1 = s\<lparr>timers := rest\<rparr>;
               n = (case map_of (nodes s1) (node_id targetNode) of
                      None \<Rightarrow> targetNode
                    | Some m \<Rightarrow> m)
           in receiveMessage p n message l s1))"

text \<open>
  The \<open>switch\<close> over \<open>config.dataType\<close> in the example data node. \<open>parseFloat\<close> and
  \<open>JSON.parse\<close> are the platform's. \<open>rawPayload.toLowerCase()\<close> exists on a string only.
\<close>

definition to_lower :: "char \<Rightarrow> char" where
  "to_lower c =
     (let k = (of_char c :: nat) in if 65 \<le> k \<and> k \<le> 90 then char_of (k + 32) else c)"

definition parse_payload ::
  "(jsval \<Rightarrow> rat option) \<Rightarrow> (jsval \<Rightarrow> error + jsval) \<Rightarrow> jsval \<Rightarrow> jsval \<Rightarrow> error + jsval" where
  "parse_payload parseFloat0 JSON_parse dataType rawPayload =
     (if dataType = Str ''string'' then Inr rawPayload
      else if dataType = Str ''number'' then
        Inr (Num (case parseFloat0 rawPayload of None \<Rightarrow> 0 | Some r \<Rightarrow> r))
      else if dataType = Str ''boolean'' then
        (case rawPayload of
           Str t \<Rightarrow> Inr (Bool (map to_lower t = ''true''))
         | _ \<Rightarrow> Inl TypeError)
      else if dataType = Str ''object'' \<or> dataType = Str ''array'' then JSON_parse rawPayload
      else Inr rawPayload)"

text \<open>
  The example data node builds the message \<open>{payload, topic, timestamp, source: node.id}\<close>
  and sends it. When parsing throws, the \<open>catch\<close> reports the error and nothing is sent.
  \<open>now\<close> is \<open>new Date().toISOString()\<close>.
\<close>

definition executeExampleDataNode ::
  "(jsval \<Rightarrow> rat option) \<Rightarrow> (jsval \<Rightarrow> error + jsval) \<Rightarrow> string \<Rightarrow> node \<Rightarrow> editor \<Rightarrow> editor" where
  "executeExampleDataNode parseFloat0 JSON_parse now n s =
     (let dataType = js_or (cfg (config n) ''dataType'') (Str ''object'');
          rawPayload = js_or (cfg (config n) ''payload'') (Str [])
      in case parse_payload parseFloat0 JSON_parse dataType rawPayload of
           Inl e \<Rightarrow> s
         | Inr payload \<Rightarrow>
             sendMessage n
               (Obj [(''payload'', payload),
                     (''topic'', js_or (cfg (config n) ''name'') (Str ''exampleData'')),
                     (''timestamp'', Str now),
                     (''source'', Str (node_id n))]) s)"

section \<open>Network data generator\<close>

text \<open>
  \<open>Math.random()\<close> is the sequence \<open>rnd\<close>: \<open>rnd k\<close> is what the \<open>k\<close>-th call returns, and every
  function hands back the number of calls made so far. Numbers are doubles: \<open>fl x\<close> is the
  double nearest to \<open>x\<close>, and it is applied to the exact result of every product, quotient
  and sum of doubles, and to the decimal literals \<open>0.8\<close> and \<open>0.7\<close>. Counters and the whole
  numbers that \<open>Math.floor\<close> returns are added and doubled exactly. \<open>pick fl xs r\<close> is
  \<open>xs[Math.floor(r * xs.length)]\<close>. \<open>toFixed2 fl x\<close> is \<open>parseFloat(x.toFixed(2))\<close>: \<open>toFixed\<close>
  rounds the exact value of \<open>x\<close> to hundredths, a tie upwards in magnitude, and \<open>parseFloat\<close>
  reads the decimal text.
\<close>

definition pick :: "(rat \<Rightarrow> rat) \<Rightarrow> string list \<Rightarrow> rat \<Rightarrow> jsval" where
  "pick fl xs r =
     (let i = \<lfloor>fl (r * of_nat (length xs))\<rfloor>
      in if 0 \<le> i \<and> i < int (length xs) then Str (xs ! nat i) else Undefined)"

definition toFixed2 :: "(rat \<Rightarrow> rat) \<Rightarrow> rat \<Rightarrow> rat" where
  "toFixed2 fl x =
     (if x < 0 then - fl (of_int \<lfloor>(- x) * 100 + 1 / 2\<rfloor> / 100)
      else fl (of_int \<lfloor>x * 100 + 1 / 2\<rfloor> / 100))"

definition names :: "string list" where
  "names = [''Alice'', ''Bob'', ''Charlie'', ''Diana'', ''Eve'', ''Frank'', ''Grace'', ''Henry'',
            ''Iris'', ''Jack'']"

definition techTypes :: "string list" where
  "techTypes = [''Server'', ''Database'', ''API'', ''Frontend'', ''Gateway'', ''Cache'', ''Queue'',
                ''Service'']"

text \<open>The id of the \<open>i\<close>-th generated node.\<close>

definition gen_id :: "jsval \<Rightarrow> nat \<Rightarrow> string" where
  "gen_id networkType i =
     (if networkType = Str ''social'' then ''person_'' @ dec i
      else if networkType = Str ''organizational'' then ''emp_'' @ dec i
      else if networkType = Str ''technical'' then ''tech_'' @ dec i
      else ''node_'' @ dec i)"

definition gen_node ::
  "(rat \<Rightarrow> rat) \<Rightarrow> (nat \<Rightarrow> rat) \<Rightarrow> jsval \<Rightarrow> bool \<Rightarrow> nat \<Rightarrow> nat \<Rightarrow> jsval \<times> nat" where
  "gen_node fl rnd networkType includeAttributes i k =
     (if networkType = Str ''social'' then
        (Obj ([(''id'', Str (gen_id networkType i)),
               (''label'', Str (if i < length names then names ! i else ''Person '' @ dec i)),
               (''type'', Str ''person'')] @
              (if includeAttributes then
                 [(''role'', pick fl [''Friend'', ''Family'', ''Colleague'', ''Acquaintance'',
                                   ''Neighbor''] (rnd k)),
                  (''age'', Num (of_int (\<lfloor>fl (rnd (k + 1) * 60)\<rfloor> + 18))),
                  (''influence'', Num (of_int \<lfloor>fl (rnd (k + 2) * 100)\<rfloor>))]
               else [])),
         if includeAttributes then k + 3 else k)
      else if networkType = Str ''organizational'' then
        (Obj ([(''id'', Str (gen_id networkType i)),
               (''label'', Str (''Employee '' @ dec (i + 1))),
               (''type'', Str ''employee'')] @
              (if includeAttributes then
                 [(''department'', pick fl [''Engineering'', ''Marketing'', ''Sales'', ''HR'',
                                         ''Finance''] (rnd k)),
                  (''position'', pick fl [''Manager'', ''Director'', ''Analyst'', ''Specialist'',
                                       ''Coordinator''] (rnd (k + 1))),
                  (''experience'', Num (of_int (\<lfloor>fl (rnd (k + 2) * 20)\<rfloor> + 1))),
                  (''salary'', Num (of_int (\<lfloor>fl (rnd (k + 3) * 100000)\<rfloor> + 40000)))]
               else [])),
         if includeAttributes then k + 4 else k)
      else if networkType = Str ''technical'' then
        (Obj ([(''id'', Str (gen_id networkType i)),
               (''label'', Str (techTypes ! (i mod length techTypes) @ ''-'' @
                               dec (i div length techTypes + 1))),
               (''type'', Str ''component'')] @
              (if includeAttributes then
                 [(''status'', Str (if rnd k > fl (8 / 10) then ''down'' else ''up'')),
                  (''load'', Num (of_int \<lfloor>fl (rnd (k + 1) * 100)\<rfloor>)),
                  (''memory'', Num (of_int (\<lfloor>fl (rnd (k + 2) * 16)\<rfloor> + 1))),
                  (''cpu'', Num (of_int \<lfloor>fl (rnd (k + 3) * 100)\<rfloor>))]
               else [])),
         if includeAttributes then k + 4 else k)
      else
        (Obj ([(''id'', Str (gen_id networkType i)),
               (''label'', Str (''Node '' @ dec (i + 1))),
               (''type'', Str ''generic'')] @
              (if includeAttributes then
                 [(''value'', Num (of_int \<lfloor>fl (rnd k * 1000)\<rfloor>)),
                  (''category'', pick fl [''A'', ''B'', ''C''] (rnd (k + 1))),
                  (''weight'', Num (toFixed2 fl (fl (rnd (k + 2) * 10))))]
               else [])),
         if includeAttributes then k + 3 else k))"

fun gen_nodes ::
  "(rat \<Rightarrow> rat) \<Rightarrow> (nat \<Rightarrow> rat) \<Rightarrow> jsval \<Rightarrow> bool \<Rightarrow> nat list \<Rightarrow> nat \<Rightarrow> jsval list \<times> nat" where
  "gen_nodes fl rnd networkType includeAttributes [] k = ([], k)"
| "gen_nodes fl rnd networkType includeAttributes (i # rest) k =
     (let (n, k1) = gen_node fl rnd networkType includeAttributes i k;
          (ns, k2) = gen_nodes fl rnd networkType includeAttributes rest k1
      in (n # ns, k2))"

text \<open>
  The \<open>do ... while\<close> loop that draws one pair. It returns the pair, its key, the number of
  calls of \<open>Math.random()\<close> made so far and the final value of \<open>attempts\<close>. The \<open>break\<close>
  leaves the loop with the pair just drawn.
\<close>

definition pairKey :: "int \<Rightarrow> int \<Rightarrow> string" where
  "pairKey a b = int_text (min a b) @ ''-'' @ int_text (max a b)"

function draw_pair ::
  "(rat \<Rightarrow> rat) \<Rightarrow> (nat \<Rightarrow> rat) \<Rightarrow> int \<Rightarrow> int \<Rightarrow> string list \<Rightarrow> nat \<Rightarrow> int \<Rightarrow>
   int \<times> int \<times> string \<times> nat \<times> int" where
  "draw_pair fl rnd nodeCount targetLinkCount usedPairs k attempts =
     (let src = \<lfloor>fl (rnd k * of_int nodeCount)\<rfloor>;
          tgt = \<lfloor>fl (rnd (k + 1) * of_int nodeCount)\<rfloor>;
          key = pairKey src tgt;
          attempts1 = attempts + 1
      in if attempts1 > targetLinkCount * 2 then (src, tgt, key, k + 2, attempts1)
         else if src = tgt \<or> key \<in> set usedPairs
         then draw_pair fl rnd nodeCount targetLinkCount usedPairs (k + 2) attempts1
         else (src, tgt, key, k + 2, attempts1))"
  by pat_completeness auto
termination
  by (relation "measure (\<lambda>(fl, rnd, nodeCount, targetLinkCount, usedPairs, k, attempts).
                    nat (targetLinkCount * 2 + 1 - attempts))") auto

declare draw_pair.simps [simp del]

definition gen_link ::
  "(rat \<Rightarrow> rat) \<Rightarrow> (nat \<Rightarrow> rat) \<Rightarrow> jsval \<Rightarrow> bool \<Rightarrow> jsval \<Rightarrow> jsval \<Rightarrow> nat \<Rightarrow> jsval \<times> nat" where
  "gen_link fl rnd networkType includeAttributes sourceId targetId k =
     (if includeAttributes then
        (if networkType = Str ''social'' then
           (Obj [(''source'', sourceId), (''target'', targetId),
                 (''weight'', Num (toFixed2 fl (fl (fl (rnd k * 10) + 1)))),
                 (''relationship'', pick fl [''friend'', ''family'', ''colleague''] (rnd (k + 1)))],
            k + 2)
         else if networkType = Str ''organizational'' then
           (Obj [(''source'', sourceId), (''target'', targetId),
                 (''weight'', Num (toFixed2 fl (fl (fl (rnd k * 10) + 1)))),
                 (''reportingLine'', Bool (rnd (k + 1) > fl (7 / 10)))],
            k + 2)
         else if networkType = Str ''technical'' then
           (Obj [(''source'', sourceId), (''target'', targetId),
                 (''weight'', Num (toFixed2 fl (fl (fl (rnd k * 10) + 1)))),
                 (''protocol'', pick fl [''HTTP'', ''TCP'', ''UDP'', ''WebSocket''] (rnd (k + 1))),
                 (''latency'', Num (of_int (\<lfloor>fl (rnd (k + 2) * 100)\<rfloor> + 1)))],
            k + 3)
         else
           (Obj [(''source'', sourceId), (''target'', targetId),
                 (''weight'', Num (toFixed2 fl (fl (fl (rnd k * 10) + 1))))],
            k + 1))
      else (Obj [(''source'', sourceId), (''target'', targetId)], k))"

text \<open>
  The \<open>for\<close> loop over the links, \<open>remaining\<close> rounds to go. \<open>nodes[source].id\<close> throws when
  the index is outside the node list. The last component of the result lists, per round,
  the final value of \<open>attempts\<close>.
\<close>

definition node_at :: "jsval list \<Rightarrow> int \<Rightarrow> error + jsval" where
  "node_at ns i =
     (if 0 \<le> i \<and> i < int (length ns) then Inr (js_prop (ns ! nat i) ''id'')
      else Inl TypeError)"

fun gen_links ::
  "(rat \<Rightarrow> rat) \<Rightarrow> (nat \<Rightarrow> rat) \<Rightarrow> jsval \<Rightarrow> bool \<Rightarrow> int \<Rightarrow> int \<Rightarrow> jsval list \<Rightarrow> nat \<Rightarrow>
   string list \<Rightarrow> jsval list \<Rightarrow> nat \<Rightarrow> int list \<Rightarrow> error + (jsval list \<times> nat \<times> int list)" where
  "gen_links fl rnd networkType includeAttributes nodeCount targetLinkCount ns 0
     usedPairs ls k tries = Inr (ls, k, tries)"
| "gen_links fl rnd networkType includeAttributes nodeCount targetLinkCount ns (Suc remaining)
     usedPairs ls k tries =
     (let (src, tgt, key, k1, attempts) =
            draw_pair fl rnd nodeCount targetLinkCount usedPairs k 0
      in if src \<noteq> tgt \<and> key \<notin> set usedPairs then
           (case node_at ns src of
              Inl e \<Rightarrow> Inl e
            | Inr sourceId \<Rightarrow>
                (case node_at ns tgt of
                   Inl e \<Rightarrow> Inl e
                 | Inr targetId \<Rightarrow>
                     (let (l, k2) = gen_link fl rnd networkType includeAttributes sourceId targetId k1
                      in gen_links fl rnd networkType includeAttributes nodeCount targetLinkCount ns
                           remaining (usedPairs @ [key]) (ls @ [l]) k2 (tries @ [attempts]))))
         else gen_links fl rnd networkType includeAttributes nodeCount targetLinkCount ns
                remaining usedPairs ls k1 (tries @ [attempts]))"

record generated =
  g_nodes :: "jsval list"
  g_edges :: "jsval list"
  g_calls :: nat
  g_attempts :: "int list"

text \<open>
  The number of links the generator aims at: \<open>maxPossibleLinks\<close> is
  \<open>(nodeCount * (nodeCount - 1)) / 2\<close> and \<open>targetLinkCount\<close> is
  \<open>Math.floor(maxPossibleLinks * connectivity)\<close>, in double arithmetic.
\<close>

definition target_links :: "(rat \<Rightarrow> rat) \<Rightarrow> int \<Rightarrow> rat \<Rightarrow> int" where
  "target_links fl nodeCount connectivity =
     (let maxPossibleLinks = fl (fl (of_int nodeCount * fl (of_int nodeCount - 1)) / 2)
      in \<lfloor>fl (maxPossibleLinks * connectivity)\<rfloor>)"

text \<open>
  \<open>generateNetworkData\<close>. \<open>nodeCount\<close> is the whole number \<open>parseInt\<close> gave and \<open>connectivity\<close>
  the double \<open>parseFloat\<close> gave. The result keeps the node list and the edge list of the
  returned object, with the number of random draws and the attempts of each round;
  \<open>network_payload\<close> is the returned object itself.
\<close>

definition generateNetworkData ::
  "(rat \<Rightarrow> rat) \<Rightarrow> (nat \<Rightarrow> rat) \<Rightarrow> jsval \<Rightarrow> int \<Rightarrow> rat \<Rightarrow> bool \<Rightarrow> error + generated" where
  "generateNetworkData fl rnd networkType nodeCount connectivity includeAttributes =
     (let (ns, k) = gen_nodes fl rnd networkType includeAttributes [0..<nat nodeCount] 0;
          targetLinkCount = target_links fl nodeCount connectivity
      in case gen_links fl rnd networkType includeAttributes nodeCount targetLinkCount ns
                (nat targetLinkCount) [] [] k [] of
           Inl e \<Rightarrow> Inl e
         | Inr (ls, k1, tries) \<Rightarrow>
             Inr \<lparr>g_nodes = ns, g_edges = ls, g_calls = k1, g_attempts = tries\<rparr>)"

definition network_payload :: "jsval \<Rightarrow> int \<Rightarrow> rat \<Rightarrow> string \<Rightarrow> generated \<Rightarrow> jsval" where
  "network_payload networkType nodeCount connectivity generatedAt g =
     Obj [(''nodes'', Arr (g_nodes g)),
          (''edges'', Arr (g_edges g)),
          (''metadata'', Obj [(''networkType'', networkType),
                              (''nodeCount'', Num (of_int nodeCount)),
                              (''linkCount'', Num (of_nat (length (g_edges g)))),
                              (''connectivity'', Num connectivity),
                              (''generated'', Str generatedAt)])]"

text \<open>
  The simulation node reads its configuration, generates the data and sends it; an error
  thrown on the way is caught and nothing is sent. \<open>generatedAt\<close> and \<open>now\<close> are its two clock
  readings, \<open>msgid\<close> is the random message id. \<open>executeNode\<close> runs both data sources, and
  only for a node of type \<open>exampleData\<close>.
\<close>

definition executeNetworkDataSimNode ::
  "platform \<Rightarrow> (nat \<Rightarrow> rat) \<Rightarrow> string \<Rightarrow> string \<Rightarrow> string \<Rightarrow> node \<Rightarrow> editor \<Rightarrow> editor" where
  "executeNetworkDataSimNode p rnd generatedAt now msgid n s =
     (let networkType = js_or (cfg (config n) ''networkType'') (Str ''social'');
          nodeCount = parseInt_or (numText p) (cfg (config n) ''nodeCount'') 8;
          connectivity = (case parseFloat p (cfg (config n) ''connectivity'') of
                            None \<Rightarrow> roundDouble p (3 / 10)
                          | Some r \<Rightarrow> if r = 0 then roundDouble p (3 / 10) else r);
          includeAttributes = (cfg (config n) ''includeAttributes'' \<noteq> Bool False)
      in case generateNetworkData (roundDouble p) rnd networkType nodeCount connectivity
                includeAttributes of
           Inl e \<Rightarrow> s
         | Inr g \<Rightarrow>
             sendMessage n
               (Obj [(''payload'', network_payload networkType nodeCount connectivity generatedAt g),
                     (''topic'', Str ''network-simulation''),
                     (''timestamp'', Str now),
                     (''_msgid'', Str msgid)]) s)"

definition executeNode ::
  "platform \<Rightarrow> (jsval \<Rightarrow> error + jsval) \<Rightarrow> (nat \<Rightarrow> rat) \<Rightarrow> string \<Rightarrow> string \<Rightarrow> string \<Rightarrow>
   string \<Rightarrow> node \<Rightarrow> editor \<Rightarrow> editor" where
  "executeNode p JSON_parse rnd sentAt generatedAt now msgid n s =
     (if node_type n = Str ''exampleData''
      then executeNetworkDataSimNode p rnd generatedAt now msgid n
             (executeExampleDataNode (parseFloat p) JSON_parse sentAt n s)
      else s)"

section \<open>Configuration edits\<close>

text \<open>
  \<open>saveNodeConfig\<close> reads the modal form: the type key, the id of the node being edited (if
  any) and the field values. It assigns the values to the node's configuration, or creates
  a node at the centre of the canvas (\<open>x\<close>, \<open>y\<close>). An input of the properties panel writes one
  key of the configuration.
\<close>

definition saveNodeConfig ::
  "string \<Rightarrow> string option \<Rightarrow> (string \<times> jsval) list \<Rightarrow> jsval \<Rightarrow> jsval \<Rightarrow> editor \<Rightarrow> editor" where
  "saveNodeConfig nodeType0 nodeId formValues x y s =
     (case nodeId of
        Some i \<Rightarrow> update_node i (\<lambda>n. n\<lparr>config := spread (config n) (Obj formValues)\<rparr>) s
      | None \<Rightarrow> snd (createNode (Str nodeType0) x y (Obj formValues) s))"

definition editField :: "string \<Rightarrow> string \<Rightarrow> jsval \<Rightarrow> editor \<Rightarrow> editor" where
  "editField nodeId fieldName v s =
     update_node nodeId
       (\<lambda>n. n\<lparr>config := enum_order (AList.update fieldName v (config n))\<rparr>) s"

section \<open>Sessions\<close>

text \<open>
  A session is a sequence of the calls below on one editor: the store operations, the
  gestures, the configuration edits, the clear buttons, running a data source node and the
  timers of message delivery.
\<close>

datatype op =
    CreateNode jsval jsval jsval jsval
  | CreateConnection node jsval node jsval
  | DeleteNode string
  | DeleteLink string
  | MoveNode string jsval jsval
  | ClearAll
  | ImportFlow "error + jsval"
  | NodeMouseDown string
  | PortMouseDown string portType nat
  | ConnectionMouseUp eventTarget
  | KeyDown string
  | SaveNodeConfig string "string option" "(string \<times> jsval) list" jsval jsval
  | EditField string string jsval
  | ClearDebugOutput string
  | ClearTableData string
  | ClearGraphData string
  | ClearNetworkData string
  | ExecuteNode platform "jsval \<Rightarrow> error + jsval" "nat \<Rightarrow> rat" string string string string node
  | FireTimer platform

fun exec :: "op \<Rightarrow> editor \<Rightarrow> editor" where
  "exec (CreateNode t x y c) s = snd (createNode t x y c s)"
| "exec (CreateConnection a i b j) s = snd (createConnection a i b j s)"
| "exec (DeleteNode i) s = deleteNode i s"
| "exec (DeleteLink i) s = deleteLink i s"
| "exec (MoveNode i x y) s = moveNode i x y s"
| "exec ClearAll s = clearAll s"
| "exec (ImportFlow parsed) s = snd (importFlow parsed s)"
| "exec (NodeMouseDown i) s = onNodeMouseDown i s"
| "exec (PortMouseDown i pt k) s = onPortMouseDown i pt k s"
| "exec (ConnectionMouseUp tgt) s = onConnectionMouseUp tgt s"
| "exec (KeyDown key) s = onKeyDown key s"
| "exec (SaveNodeConfig t i formValues x y) s = saveNodeConfig t i formValues x y s"
| "exec (EditField i k v) s = editField i k v s"
| "exec (ClearDebugOutput i) s = clearDebugOutput i s"
| "exec (ClearTableData i) s = clearTableData i s"
| "exec (ClearGraphData i) s = clearGraphData i s"
| "exec (ClearNetworkData i) s = clearNetworkData i s"
| "exec (ExecuteNode p JSON_parse rnd sentAt generatedAt now msgid n) s =
     executeNode p JSON_parse rnd sentAt generatedAt now msgid n s"
| "exec (FireTimer p) s = fireTimer p s"

fun run :: "op list \<Rightarrow> editor \<Rightarrow> editor" where
  "run [] s = s"
| "run (c # cs) s = run cs (exec c s)"

text \<open>
  The node ids \<open>createNode\<close> assigns to the nodes it makes during one call of the session,
  in order, and over a whole session.
\<close>

definition created_ids :: "node option list \<Rightarrow> string list" where
  "created_ids rs = concat (map (\<lambda>r. case r of None \<Rightarrow> [] | Some n \<Rightarrow> [node_id n]) rs)"



text \<open>
  \<open>issued_between c c' ids\<close>: the ids are \<open>node_i\<close> for strictly increasing \<open>i\<close> above the counter
  value \<open>c\<close> and up to the counter value \<open>c'\<close>.
\<close>

definition issued_between :: "nat \<Rightarrow> nat \<Rightarrow> string list \<Rightarrow> bool" where
  "issued_between c c' ids \<longleftrightarrow>
     c \<le> c' \<and> (\<exists>js. ids = map (\<lambda>i. ''node_'' @ dec i) js \<and> sorted_wrt (<) js \<and>
                     (\<forall>i \<in> set js. c < i \<and> i \<le> c'))"

section \<open>Store invariants\<close>

text \<open>
  \<open>store_ok\<close>: the two maps have one entry per key, a node is filed under its own id, and
  both endpoints of every link are ids of nodes in the store. \<open>call_ok\<close> says of a call that
  takes node objects from outside the store that these objects are in the store:
  \<open>createConnection\<close> called directly, and the release of a connect gesture, whose source
  node was remembered when the gesture began.
\<close>

definition node_keys :: "editor \<Rightarrow> string set" where
  "node_keys s = fst ` set (nodes s)"

definition store_ok :: "editor \<Rightarrow> bool" where
  "store_ok s \<longleftrightarrow>
     distinct (map fst (nodes s)) \<and> distinct (map fst (links s)) \<and>
     (\<forall>(k, n) \<in> set (nodes s). node_id n = k) \<and>
     (\<forall>(k, l) \<in> set (links s). source l \<in> node_keys s \<and> target l \<in> node_keys s)"

fun call_ok :: "op \<Rightarrow> editor \<Rightarrow> bool" where
  "call_ok (CreateConnection a i b j) s \<longleftrightarrow> node_id a \<in> node_keys s \<and> node_id b \<in> node_keys s"
| "call_ok (ConnectionMouseUp tgt) s \<longleftrightarrow>
     (case connection s of
        None \<Rightarrow> True
      | Some start \<Rightarrow> (case cs_node start of None \<Rightarrow> True | Some a \<Rightarrow> node_id a \<in> node_keys s))"
| "call_ok c s \<longleftrightarrow> True"

section \<open>Example sessions\<close>

text \<open>
  Three nodes wired in a chain by two connect gestures; a connect gesture begun on the
  output port of a selected node; that gesture when the node is deleted with the Delete key
  before the pointer is released over another node's input port; and a gesture in progress
  from a function node, with the two node objects of that store.
\<close>

definition three_nodes :: editor where
  "three_nodes =
     run [CreateNode (Str ''exampleData'') (Num 40) (Num 40) Undefined,
          CreateNode (Str ''function'') (Num 240) (Num 40) Undefined,
          CreateNode (Str ''debug'') (Num 440) (Num 40) Undefined,
          PortMouseDown ''node_1'' OutputPort 0,
          ConnectionMouseUp (PortElement ''node_2'' InputPort 0),
          PortMouseDown ''node_2'' OutputPort 0,
          ConnectionMouseUp (PortElement ''node_3'' InputPort 0)] new_editor"

definition gesture_begun :: editor where
  "gesture_begun =
     run [CreateNode (Str ''exampleData'') (Num 40) (Num 40) Undefined,
          CreateNode (Str ''debug'') (Num 240) (Num 40) Undefined,
          NodeMouseDown ''node_1'',
          PortMouseDown ''node_1'' OutputPort 0] new_editor"

definition stale_gesture :: editor where
  "stale_gesture =
     run [KeyDown ''Delete'',
          ConnectionMouseUp (PortElement ''node_2'' InputPort 0)] gesture_begun"




text \<open>
  Three nodes are made, the second is wired to the third, and the first is deleted.
\<close>

definition deleted_first :: editor where
  "deleted_first =
     run [CreateNode (Str ''exampleData'') (Num 40) (Num 40) Undefined,
          CreateNode (Str ''function'') (Num 240) (Num 40) Undefined,
          CreateNode (Str ''debug'') (Num 440) (Num 40) Undefined,
          PortMouseDown ''node_2'' OutputPort 0,
          ConnectionMouseUp (PortElement ''node_3'' InputPort 0),
          DeleteNode ''node_1''] new_editor"

section \<open>Runs of message handlers\<close>

text \<open>
  The deliveries \<open>sendMessage\<close> schedules from a node: one for each link whose source is
  the node and whose target is in the store, in link order.
\<close>

definition deliveries :: "node \<Rightarrow> editor \<Rightarrow> (node \<times> link) list" where
  "deliveries n s =
     concat (map (\<lambda>l. case map_of (nodes s) (target l) of None \<Rightarrow> [] | Some t \<Rightarrow> [(t, l)])
                 (filter (\<lambda>l. source l = node_id n) (map snd (links s))))"

text \<open>
  The function node of the chain of three nodes, a message of the shape
  \<open>executeExampleDataNode\<close> builds in \<open>node_1\<close>, and one of the shape
  \<open>executeNetworkDataSimNode\<close> builds, which has no \<open>source\<close> field.
\<close>

definition fn2_node :: node where
  "fn2_node = \<lparr>node_id = ''node_2'', node_type = Str ''function'', node_x = Num 240,
     node_y = Num 40, width = 120, height = 40,
     config = [(''name'', Str []), (''func'', Str ''return msg;'')],
     inputs = Num 1, outputs = Num 1, debugOutputs = None, accumulatedData = None, graphData = None,
     networkData = None\<rparr>"

definition msg_from_node_1 :: "(string \<times> jsval) list" where
  "msg_from_node_1 =
     [(''payload'', Obj [(''temperature'', Num (47 / 2)), (''humidity'', Num 65)]),
      (''topic'', Str ''exampleData''),
      (''timestamp'', Str ''2024-01-01T00:00:00.000Z''),
      (''source'', Str ''node_1'')]"

definition msg_from_simulation :: "(string \<times> jsval) list" where
  "msg_from_simulation =
     [(''payload'', Obj [(''nodes'', Arr []), (''edges'', Arr [])]),
      (''topic'', Str ''network-simulation''),
      (''timestamp'', Str ''2024-01-01T00:00:00.000Z''),
      (''_msgid'', Str ''k3x9'')]"














section \<open>Runs of the network data generator\<close>



text \<open>
  The rounding of the examples: \<open>double53 x\<close> is the number with a significand of 53 bits
  nearest to \<open>x\<close>, a tie going to the even significand. Below \<open>2^-1022\<close> the spacing stays
  \<open>2^-1074\<close>; the overflow to infinity beyond the largest double is not modelled.
  \<open>exponent x\<close> is the whole part of the binary logarithm of a positive \<open>x\<close>.
\<close>

function bit_length :: "nat \<Rightarrow> nat" where
  "bit_length n = (if n = 0 then 0 else Suc (bit_length (n div 2)))"
  by pat_completeness auto
termination
  by (relation "measure id") auto

declare bit_length.simps [simp del]

definition pow2 :: "int \<Rightarrow> rat" where
  "pow2 e = (if 0 \<le> e then 2 ^ nat e else 1 / 2 ^ nat (- e))"

definition exponent :: "rat \<Rightarrow> int" where
  "exponent x =
     (if 1 \<le> x then int (bit_length (nat \<lfloor>x\<rfloor>)) - 1
      else - int (bit_length (nat \<lceil>1 / x\<rceil> - 1)))"

definition round_even :: "rat \<Rightarrow> int" where
  "round_even q =
     (let f = \<lfloor>q\<rfloor>; d = q - of_int f
      in if d < 1 / 2 then f else if 1 / 2 < d then f + 1 else if even f then f else f + 1)"

definition double53 :: "rat \<Rightarrow> rat" where
  "double53 x =
     (if x = 0 then 0
      else (let u = pow2 (max (exponent \<bar>x\<bar>) (- 1022) - 52)
            in of_int (round_even (x / u)) * u))"



definition rnd_halves :: "nat \<Rightarrow> rat" where
  "rnd_halves k = (if even k then 0 else 1 / 2)"

definition third :: rat where
  "third = 6004799503160661 / 18014398509481984"

section \<open>The debug node's ring buffer\<close>

lemma take_append_take: "take k (xs @ take k ys) = take k (xs @ ys)"
  by (simp add: min_def)

lemma executeDebugNode_step:
  "\<not> nullish m \<Longrightarrow>
   \<exists>n'. executeDebugNode t n m = Inr n' \<and> config n' = config n \<and>
        debugOutputs n' = Some (take 10 (debug_entry_for n (t, m) # retained_entries n))"
  by (auto simp: executeDebugNode_def debug_entry_for_def retained_entries_def Let_def)

lemma debug_run_outputs:
  "\<forall>tm \<in> set msgs. \<not> nullish (snd tm) \<Longrightarrow> msgs \<noteq> [] \<Longrightarrow>
   config (debug_run n msgs) = config n \<and>
   debugOutputs (debug_run n msgs) =
     Some (take 10 (rev (map (debug_entry_for n) msgs) @ retained_entries n))"
proof (induction msgs arbitrary: n)
  case Nil
  then show ?case by simp
next
  case (Cons tm msgs)
  obtain t m where tm: "tm = (t, m)" by (cases tm)
  from Cons.prems have nm: "\<not> nullish m" by (simp add: tm)
  from executeDebugNode_step[OF nm, of t n] obtain n' where
    n': "executeDebugNode t n m = Inr n'" "config n' = config n"
        "debugOutputs n' = Some (take 10 (debug_entry_for n (t, m) # retained_entries n))"
    by blast
  have same_entry: "debug_entry_for n' = debug_entry_for n"
    by (rule ext) (simp add: debug_entry_for_def n')
  show ?case
  proof (cases "msgs = []")
    case True
    then show ?thesis using n' by (simp add: tm)
  next
    case False
    from Cons.IH[OF _ False, of n'] Cons.prems
    have "config (debug_run n' msgs) = config n' \<and>
          debugOutputs (debug_run n' msgs) =
            Some (take 10 (rev (map (debug_entry_for n') msgs) @ retained_entries n'))"
      by simp
    moreover have "retained_entries n' = take 10 (debug_entry_for n (t, m) # retained_entries n)"
      by (simp add: retained_entries_def n')
    moreover have
      "take 10 (rev (map (debug_entry_for n) msgs) @
                take 10 (debug_entry_for n (t, m) # retained_entries n)) =
       take 10 (rev (map (debug_entry_for n) msgs) @ debug_entry_for n (t, m) # retained_entries n)"
      by (rule take_append_take[of 10 _ "_ # _"])
    ultimately show ?thesis using n' same_entry by (simp add: tm)
  qed
qed

text \<open>
  C5. A debug node that receives a non-empty sequence of messages retains the ten newest
  entries, newest first: the retained list is the first ten of the new entries in reverse
  arrival order followed by what was retained before. It never holds more than ten
  entries, its first entry is the one of the last message received, and after twelve
  messages it holds exactly ten.
\<close>

theorem debug_ring_buffer:
  assumes "\<forall>tm \<in> set msgs. \<not> nullish (snd tm)" and "msgs \<noteq> []"
  shows "retained_entries (debug_run n msgs) =
           take 10 (rev (map (debug_entry_for n) msgs) @ retained_entries n)
         \<and> length (retained_entries (debug_run n msgs)) \<le> 10
         \<and> hd (retained_entries (debug_run n msgs)) = debug_entry_for n (last msgs)
         \<and> (length msgs = 12 \<longrightarrow> length (retained_entries (debug_run n msgs)) = 10)"
proof -
  from debug_run_outputs[OF assms, of n]
  have r: "retained_entries (debug_run n msgs) =
             take 10 (rev (map (debug_entry_for n) msgs) @ retained_entries n)"
    by (simp add: retained_entries_def)
  have "rev (map (debug_entry_for n) msgs) \<noteq> []" using assms(2) by simp
  then obtain e es where es: "rev (map (debug_entry_for n) msgs) = e # es"
    by (cases "rev (map (debug_entry_for n) msgs)") auto
  have "e = hd (rev (map (debug_entry_for n) msgs))" by (simp add: es)
  also have "\<dots> = debug_entry_for n (last msgs)"
    using assms(2) by (simp add: hd_rev last_map)
  finally have e: "e = debug_entry_for n (last msgs)" .
  have h: "hd (retained_entries (debug_run n msgs)) = debug_entry_for n (last msgs)"
    by (simp add: r es e)
  have l: "length (retained_entries (debug_run n msgs)) \<le> 10" by (simp add: r)
  have t: "length msgs = 12 \<longrightarrow> length (retained_entries (debug_run n msgs)) = 10"
    by (simp add: r)
  from r h l t show ?thesis by blast
qed

theorem debug_ring_buffer_witness:
  "length (retained_entries (debug_run
     \<lparr>node_id = ''node_2'', node_type = Str ''debug'', node_x = Num 300,
       node_y = Num 100, width = 120, height = 40,
       config = [(''name'', Str []), (''complete'', Str ''payload''),
                 (''console'', Bool True)],
       inputs = Num 1, outputs = Num 0, debugOutputs = None, accumulatedData = None,
       graphData = None, networkData = None\<rparr>
     [(''10:00:01'', Obj [(''payload'', Num 1), (''source'', Str ''node_1'')]),
      (''10:00:02'', Obj [(''payload'', Num 2), (''source'', Str ''node_1'')]),
      (''10:00:03'', Obj [(''payload'', Num 3), (''source'', Str ''node_1'')]),
      (''10:00:04'', Obj [(''payload'', Num 4), (''source'', Str ''node_1'')]),
      (''10:00:05'', Obj [(''payload'', Num 5), (''source'', Str ''node_1'')]),
      (''10:00:06'', Obj [(''payload'', Num 6), (''source'', Str ''node_1'')]),
      (''10:00:07'', Obj [(''payload'', Num 7), (''source'', Str ''node_1'')]),
      (''10:00:08'', Obj [(''payload'', Num 8), (''source'', Str ''node_1'')]),
      (''10:00:09'', Obj [(''payload'', Num 9), (''source'', Str ''node_1'')]),
      (''10:00:10'', Obj [(''payload'', Num 10), (''source'', Str ''node_1'')]),
      (''10:00:11'', Obj [(''payload'', Num 11), (''source'', Str ''node_1'')]),
      (''10:00:12'', Obj [(''payload'', Num 12), (''source'', Str ''node_1'')])])) = 10
   \<and> hd (retained_entries (debug_run
     \<lparr>node_id = ''node_2'', node_type = Str ''debug'', node_x = Num 300,
       node_y = Num 100, width = 120, height = 40,
       config = [(''name'', Str []), (''complete'', Str ''payload''),
                 (''console'', Bool True)],
       inputs = Num 1, outputs = Num 0, debugOutputs = None, accumulatedData = None,
       graphData = None, networkData = None\<rparr>
     [(''10:00:01'', Obj [(''payload'', Num 1), (''source'', Str ''node_1'')]),
      (''10:00:02'', Obj [(''payload'', Num 2), (''source'', Str ''node_1'')]),
      (''10:00:03'', Obj [(''payload'', Num 3), (''source'', Str ''node_1'')]),
      (''10:00:04'', Obj [(''payload'', Num 4), (''source'', Str ''node_1'')]),
      (''10:00:05'', Obj [(''payload'', Num 5), (''source'', Str ''node_1'')]),
      (''10:00:06'', Obj [(''payload'', Num 6), (''source'', Str ''node_1'')]),
      (''10:00:07'', Obj [(''payload'', Num 7), (''source'', Str ''node_1'')]),
      (''10:00:08'', Obj [(''payload'', Num 8), (''source'', Str ''node_1'')]),
      (''10:00:09'', Obj [(''payload'', Num 9), (''source'', Str ''node_1'')]),
      (''10:00:10'', Obj [(''payload'', Num 10), (''source'', Str ''node_1'')]),
      (''10:00:11'', Obj [(''payload'', Num 11), (''source'', Str ''node_1'')]),
      (''10:00:12'', Obj [(''payload'', Num 12), (''source'', Str ''node_1'')])]))
     = \<lparr>timestamp = ''10:00:12'', data = Num 12,
        fullMessage = Obj [(''payload'', Num 12), (''source'', Str ''node_1'')]\<rparr>"
  using debug_ring_buffer[of
     "[(''10:00:01'', Obj [(''payload'', Num 1), (''source'', Str ''node_1'')]),
      (''10:00:02'', Obj [(''payload'', Num 2), (''source'', Str ''node_1'')]),
      (''10:00:03'', Obj [(''payload'', Num 3), (''source'', Str ''node_1'')]),
      (''10:00:04'', Obj [(''payload'', Num 4), (''source'', Str ''node_1'')]),
      (''10:00:05'', Obj [(''payload'', Num 5), (''source'', Str ''node_1'')]),
      (''10:00:06'', Obj [(''payload'', Num 6), (''source'', Str ''node_1'')]),
      (''10:00:07'', Obj [(''payload'', Num 7), (''source'', Str ''node_1'')]),
      (''10:00:08'', Obj [(''payload'', Num 8), (''source'', Str ''node_1'')]),
      (''10:00:09'', Obj [(''payload'', Num 9), (''source'', Str ''node_1'')]),
      (''10:00:10'', Obj [(''payload'', Num 10), (''source'', Str ''node_1'')]),
      (''10:00:11'', Obj [(''payload'', Num 11), (''source'', Str ''node_1'')]),
      (''10:00:12'', Obj [(''payload'', Num 12), (''source'', Str ''node_1'')])]"
     "\<lparr>node_id = ''node_2'', node_type = Str ''debug'', node_x = Num 300,
       node_y = Num 100, width = 120, height = 40,
       config = [(''name'', Str []), (''complete'', Str ''payload''),
                 (''console'', Bool True)],
       inputs = Num 1, outputs = Num 0, debugOutputs = None, accumulatedData = None,
       graphData = None, networkData = None\<rparr>"]
  by (simp add: debug_entry_for_def cfg_def js_prop_def)

section \<open>Decimal names are injective\<close>

lemma dec_nonempty: "dec n \<noteq> []"
  by (subst dec.simps) simp

lemma digit_inj: "a < 10 \<Longrightarrow> b < 10 \<Longrightarrow> ''0123456789'' ! a = ''0123456789'' ! b \<Longrightarrow> a = (b::nat)"
proof -
  assume a: "a < 10" and b: "b < 10" and e: "''0123456789'' ! a = ''0123456789'' ! b"
  have d: "distinct ''0123456789''" by simp
  have "length ''0123456789'' = 10" by simp
  with a b d e show ?thesis by (metis nth_eq_iff_index_eq)
qed

lemma dec_inj: "dec n = dec m \<Longrightarrow> n = m"
proof (induction n arbitrary: m rule: dec.induct)
  case (1 n)
  show ?case
  proof (cases "n < 10")
    case True
    with "1.prems" have l: "length (dec m) = 1" by (subst (asm) dec.simps[of n]) (simp, metis length_Cons list.size(3))
    have m10: "m < 10"
    proof (rule ccontr)
      assume "\<not> m < 10"
      then have "dec m = dec (m div 10) @ [''0123456789'' ! (m mod 10)]" by (subst dec.simps) simp
      with l dec_nonempty[of "m div 10"] show False by (cases "dec (m div 10)") auto
    qed
    from "1.prems" True m10 have "''0123456789'' ! n = ''0123456789'' ! m"
      by (subst (asm) dec.simps[of n], subst (asm) dec.simps[of m]) simp
    with True m10 show ?thesis by (rule digit_inj)
  next
    case False
    then have dn: "dec n = dec (n div 10) @ [''0123456789'' ! (n mod 10)]" by (subst dec.simps) simp
    have m10: "\<not> m < 10"
    proof
      assume "m < 10"
      then have "dec m = [''0123456789'' ! m]" by (subst dec.simps) simp
      with "1.prems" dn dec_nonempty[of "n div 10"] show False by (cases "dec (n div 10)") auto
    qed
    then have dm: "dec m = dec (m div 10) @ [''0123456789'' ! (m mod 10)]" by (subst dec.simps) simp
    from "1.prems" dn dm have e1: "dec (n div 10) = dec (m div 10)" and e2: "''0123456789'' ! (n mod 10) = ''0123456789'' ! (m mod 10)" by auto
    from "1.IH"[OF False e1] have q: "n div 10 = m div 10" .
    have "n mod 10 = m mod 10" by (rule digit_inj[OF _ _ e2]) auto
    with q show ?thesis by (metis div_mult_mod_eq)
  qed
qed

text \<open>A key that does not begin with a digit is no array index.\<close>

lemma dec_digits: "set (dec n) \<subseteq> set ''0123456789''"
proof (induction n rule: dec.induct)
  case (1 n)
  have m: "''0123456789'' ! (n mod 10) \<in> set ''0123456789''" by (rule nth_mem) simp
  show ?case
  proof (cases "n < 10")
    case True
    then have "''0123456789'' ! n \<in> set ''0123456789''" by (intro nth_mem) simp
    with True show ?thesis by (subst dec.simps) simp
  next
    case False
    with "1.IH" m show ?thesis by (subst dec.simps) simp
  qed
qed

lemma index_key_not_digit: "c \<notin> set ''0123456789'' \<Longrightarrow> index_key (c # cs) = None"
proof -
  assume c: "c \<notin> set ''0123456789''"
  have "c # cs \<noteq> dec n" for n
  proof
    assume "c # cs = dec n"
    then have "c \<in> set (dec n)" by (metis list.set_intros(1))
    with dec_digits[of n] c show False by blast
  qed
  then show ?thesis by (simp add: index_key_def Let_def)
qed

lemma index_key_Nil: "index_key [] = None"
  using dec_nonempty[of 0] by (simp add: index_key_def)

section \<open>Node ids are never reused\<close>

lemma node_name_inj: "''node_'' @ dec a = ''node_'' @ dec b \<Longrightarrow> a = b"
  by (simp add: dec_inj)

subsection \<open>The node counter\<close>



lemma nodeCounter_createConnection [simp]: "nodeCounter (snd (createConnection a i b j s)) = nodeCounter s"
  by (simp add: createConnection_def Let_def)

lemma nodeCounter_clearSelection [simp]: "nodeCounter (clearSelection s) = nodeCounter s"
  by (simp add: clearSelection_def)

lemma nodeCounter_deleteLink [simp]: "nodeCounter (deleteLink k s) = nodeCounter s"
  by (simp add: deleteLink_def Let_def split: option.splits)

lemma nodeCounter_fold_deleteLink [simp]: "nodeCounter (fold deleteLink ks s) = nodeCounter s"
  by (induction ks arbitrary: s) simp_all

lemma nodeCounter_deleteNode [simp]: "nodeCounter (deleteNode i s) = nodeCounter s"
  by (simp add: deleteNode_def Let_def split: option.splits)

lemma nodeCounter_deleteSelected [simp]: "nodeCounter (deleteSelected s) = nodeCounter s"
  by (simp add: deleteSelected_def split: option.splits)

lemma nodeCounter_clearAll [simp]: "nodeCounter (clearAll s) = nodeCounter s"
  by (simp add: clearAll_def)

lemma nodeCounter_moveNode [simp]: "nodeCounter (moveNode i x y s) = nodeCounter s"
  by (simp add: moveNode_def)

lemma nodeCounter_update_node [simp]: "nodeCounter (update_node i f s) = nodeCounter s"
  by (simp add: update_node_def)

lemma nodeCounter_sendMessage [simp]: "nodeCounter (sendMessage n m s) = nodeCounter s"
  by (simp add: sendMessage_def Let_def)

lemma nodeCounter_receiveMessage [simp]: "nodeCounter (receiveMessage p n m l s) = nodeCounter s"
  by (simp add: receiveMessage_def executeFunctionNode_def Let_def split: sum.splits)

lemma nodeCounter_fireTimer [simp]: "nodeCounter (fireTimer p s) = nodeCounter s"
  by (simp add: fireTimer_def Let_def split: list.splits prod.splits option.splits)

lemma nodeCounter_executeNode [simp]:
  "nodeCounter (executeNode p jp rnd t1 t2 t3 mid n s) = nodeCounter s"
  by (simp add: executeNode_def executeNetworkDataSimNode_def executeExampleDataNode_def Let_def
      split: sum.splits)

lemma nodeCounter_gestures [simp]:
  "nodeCounter (onNodeMouseDown i s) = nodeCounter s"
  "nodeCounter (onPortMouseDown i pt k s) = nodeCounter s"
  "nodeCounter (onConnectionMouseUp tgt s) = nodeCounter s"
  "nodeCounter (onKeyDown key s) = nodeCounter s"
  by (simp_all add: onNodeMouseDown_def selectNode_def onPortMouseDown_def startConnection_def
      onConnectionMouseUp_def endConnection_def onKeyDown_def Let_def
      split: option.splits eventTarget.splits portType.splits)

lemma nodeCounter_clears [simp]:
  "nodeCounter (clearDebugOutput i s) = nodeCounter s"
  "nodeCounter (clearTableData i s) = nodeCounter s"
  "nodeCounter (clearGraphData i s) = nodeCounter s"
  "nodeCounter (clearNetworkData i s) = nodeCounter s"
  "nodeCounter (editField i k v s) = nodeCounter s"
  by (simp_all add: clearDebugOutput_def clearTableData_def clearGraphData_def
      clearNetworkData_def editField_def)

lemma nodeCounter_import_links [simp]: "nodeCounter (snd (import_links ds s)) = nodeCounter s"
  by (induction ds arbitrary: s) (simp_all add: Let_def split: option.splits)

lemma issued_between_nil [simp]: "issued_between c c' [] \<longleftrightarrow> c \<le> c'"
  by (auto simp: issued_between_def)










lemmas eval_store = createNode_def createConnection_def clearAll_def clearSelection_def
  new_editor_def NODE_TYPES_def registry_entry_def object_prototype_keys_def spread_def
  enum_order_def index_key_not_digit index_key_Nil created_ids_def importFlow_def js_prop_def
  Let_def dec.simps


section \<open>Deleting a node and the store invariant\<close>

lemma links_deleteLink: "links (deleteLink k s) = AList.delete k (links s)"
proof (cases "map_of (links s) k")
  case None
  then have "k \<notin> fst ` set (links s)" by (simp add: map_of_eq_None_iff)
  then have "AList.delete k (links s) = links s" by simp
  with None show ?thesis by (simp add: deleteLink_def)
next
  case (Some l)
  then show ?thesis by (simp add: deleteLink_def Let_def clearSelection_def)
qed

lemma nodes_deleteLink [simp]: "nodes (deleteLink k s) = nodes s"
  by (simp add: deleteLink_def Let_def clearSelection_def split: option.splits)

lemma nodes_fold_deleteLink [simp]: "nodes (fold deleteLink ks s) = nodes s"
  by (induction ks arbitrary: s) simp_all

lemma links_fold_deleteLink:
  "links (fold deleteLink ks s) = filter (\<lambda>p. fst p \<notin> set ks) (links s)"
proof (induction ks arbitrary: s)
  case Nil
  then show ?case by simp
next
  case (Cons k ks)
  have "links (fold deleteLink (k # ks) s) = filter (\<lambda>p. fst p \<notin> set ks) (AList.delete k (links s))"
    by (simp add: Cons.IH links_deleteLink)
  also have "\<dots> = filter (\<lambda>p. fst p \<notin> set (k # ks)) (links s)"
    by (auto simp: AList.delete_eq case_prod_beta intro!: filter_cong)
  finally show ?case .
qed

lemma deleteNode_absent: "map_of (nodes s) i = None \<Longrightarrow> deleteNode i s = s"
  by (simp add: deleteNode_def)

lemma nodes_deleteNode: "nodes (deleteNode i s) = AList.delete i (nodes s)"
proof (cases "map_of (nodes s) i")
  case None
  then have "i \<notin> fst ` set (nodes s)" by (simp add: map_of_eq_None_iff)
  then have "AList.delete i (nodes s) = nodes s" by simp
  with None show ?thesis by (simp add: deleteNode_def)
next
  case (Some n)
  then show ?thesis by (simp add: deleteNode_def Let_def clearSelection_def)
qed

lemma links_deleteNode_present:
  assumes "map_of (nodes s) i = Some n"
  shows "links (deleteNode i s) =
         filter (\<lambda>p. fst p \<notin> fst ` {q \<in> set (links s). source (snd q) = i \<or> target (snd q) = i}) (links s)"
proof -
  have "set (map fst (filter (\<lambda>(linkId, l). source l = i \<or> target l = i) (links s)))
        = fst ` {q \<in> set (links s). source (snd q) = i \<or> target (snd q) = i}"
    by (auto simp: case_prod_beta)
  then show ?thesis using assms
    by (simp add: deleteNode_def Let_def clearSelection_def links_fold_deleteLink)
qed

lemma links_deleteNode_distinct:
  assumes "map_of (nodes s) i = Some n" and "distinct (map fst (links s))"
  shows "links (deleteNode i s) = filter (\<lambda>(k, l). source l \<noteq> i \<and> target l \<noteq> i) (links s)"
proof -
  have "filter (\<lambda>p. fst p \<notin> fst ` {q \<in> set (links s). source (snd q) = i \<or> target (snd q) = i}) (links s)
      = filter (\<lambda>(k, l). source l \<noteq> i \<and> target l \<noteq> i) (links s)"
  proof (rule filter_cong[OF refl])
    fix p assume p: "p \<in> set (links s)"
    show "(fst p \<notin> fst ` {q \<in> set (links s). source (snd q) = i \<or> target (snd q) = i})
          = (case p of (k, l) \<Rightarrow> source l \<noteq> i \<and> target l \<noteq> i)"
    proof
      assume "fst p \<notin> fst ` {q \<in> set (links s). source (snd q) = i \<or> target (snd q) = i}"
      with p show "case p of (k, l) \<Rightarrow> source l \<noteq> i \<and> target l \<noteq> i"
        by (auto simp: case_prod_beta)
    next
      assume np: "case p of (k, l) \<Rightarrow> source l \<noteq> i \<and> target l \<noteq> i"
      show "fst p \<notin> fst ` {q \<in> set (links s). source (snd q) = i \<or> target (snd q) = i}"
      proof
        assume "fst p \<in> fst ` {q \<in> set (links s). source (snd q) = i \<or> target (snd q) = i}"
        then obtain q where q: "q \<in> set (links s)" "source (snd q) = i \<or> target (snd q) = i" "fst q = fst p"
          by auto
        from assms(2) p q(1) q(3) have "q = p" by (metis eq_key_imp_eq_value prod.collapse)
        with q(2) np show False by (auto simp: case_prod_beta)
      qed
    qed
  qed
  with links_deleteNode_present[OF assms(1)] show ?thesis by simp
qed

subsection \<open>Calls preserve the store invariant\<close>

lemma store_ok_cong: "nodes s' = nodes s \<Longrightarrow> links s' = links s \<Longrightarrow> store_ok s' = store_ok s"
  by (simp add: store_ok_def node_keys_def)

lemma set_update_subset: "set (AList.update k v al) \<subseteq> insert (k, v) (set al)"
  by (induction al) auto

lemma store_ok_new_editor: "store_ok new_editor"
  by (simp add: store_ok_def new_editor_def)

lemma links_createNode [simp]: "links (snd (createNode t x y c s)) = links s"
  by (simp add: createNode_def Let_def split: option.splits)

lemma node_keys_createNode: "node_keys s \<subseteq> node_keys (snd (createNode t x y c s))"
  by (auto simp: createNode_def Let_def node_keys_def dom_update split: option.splits)

lemma store_ok_createNode:
  assumes "store_ok s"
  shows "store_ok (snd (createNode t x y c s))"
proof (cases "lookup_type t")
  case None
  then have "nodes (snd (createNode t x y c s)) = nodes s" by (simp add: createNode_def Let_def)
  with assms show ?thesis using store_ok_cong[of "snd (createNode t x y c s)" s] by simp
next
  case (Some nt)
  define k where "k = ''node_'' @ dec (nodeCounter s + 1)"
  obtain v where v: "nodes (snd (createNode t x y c s)) = AList.update k v (nodes s)" "node_id v = k"
    using Some by (simp add: createNode_def Let_def k_def)
  have d: "distinct (map fst (nodes (snd (createNode t x y c s))))"
    using assms by (simp add: v store_ok_def distinct_update)
  have i: "\<forall>(k', n) \<in> set (nodes (snd (createNode t x y c s))). node_id n = k'"
  proof (clarify)
    fix k' n assume "(k', n) \<in> set (nodes (snd (createNode t x y c s)))"
    with set_update_subset[of k v "nodes s"] have "(k', n) = (k, v) \<or> (k', n) \<in> set (nodes s)"
      by (auto simp: v)
    with v(2) assms show "node_id n = k'" by (auto simp: store_ok_def)
  qed
  have l: "\<forall>(k', l) \<in> set (links (snd (createNode t x y c s))).
       source l \<in> node_keys (snd (createNode t x y c s)) \<and> target l \<in> node_keys (snd (createNode t x y c s))"
    using assms node_keys_createNode[of s t x y c] by (auto simp: store_ok_def)
  from d i l assms show ?thesis by (simp add: store_ok_def)
qed

lemma nodes_createConnection [simp]: "nodes (snd (createConnection a i b j s)) = nodes s"
  by (simp add: createConnection_def Let_def)

lemma store_ok_createConnection:
  assumes "store_ok s" "node_id a \<in> node_keys s" "node_id b \<in> node_keys s"
  shows "store_ok (snd (createConnection a i b j s))"
proof -
  define k where "k = ''link_'' @ dec (linkCounter s + 1)"
  obtain v where v: "links (snd (createConnection a i b j s)) = AList.update k v (links s)"
      "source v = node_id a" "target v = node_id b"
    by (simp add: createConnection_def Let_def k_def)
  have d: "distinct (map fst (links (snd (createConnection a i b j s))))"
    using assms(1) by (simp add: v store_ok_def distinct_update)
  have nk: "node_keys (snd (createConnection a i b j s)) = node_keys s" by (simp add: node_keys_def)
  have l: "\<forall>(k', l) \<in> set (links (snd (createConnection a i b j s))).
       source l \<in> node_keys s \<and> target l \<in> node_keys s"
  proof (clarify)
    fix k' l assume "(k', l) \<in> set (links (snd (createConnection a i b j s)))"
    with set_update_subset[of k v "links s"] have "(k', l) = (k, v) \<or> (k', l) \<in> set (links s)"
      by (auto simp: v)
    with v assms show "source l \<in> node_keys s \<and> target l \<in> node_keys s" by (auto simp: store_ok_def)
  qed
  from d l nk assms(1) show ?thesis by (simp add: store_ok_def)
qed

lemma store_ok_deleteLink: "store_ok s \<Longrightarrow> store_ok (deleteLink k s)"
  unfolding store_ok_def node_keys_def
  by (auto simp: links_deleteLink AList.delete_eq distinct_map_filter)

lemma store_ok_deleteNode:
  assumes "store_ok s"
  shows "store_ok (deleteNode i s)"
proof (cases "map_of (nodes s) i")
  case None
  then show ?thesis using assms by (simp add: deleteNode_absent)
next
  case (Some n)
  from assms have dl: "distinct (map fst (links s))" by (simp add: store_ok_def)
  have L: "links (deleteNode i s) = filter (\<lambda>(k, l). source l \<noteq> i \<and> target l \<noteq> i) (links s)"
    by (rule links_deleteNode_distinct[OF Some dl])
  have N: "nodes (deleteNode i s) = AList.delete i (nodes s)" by (rule nodes_deleteNode)
  have K: "node_keys (deleteNode i s) = node_keys s - {i}"
    by (auto simp: node_keys_def N AList.delete_eq)
  show ?thesis unfolding store_ok_def K
    using assms by (auto simp: store_ok_def L N AList.delete_eq distinct_map_filter)
qed

lemma store_ok_update_node:
  assumes "store_ok s" "\<And>n. node_id (f n) = node_id n"
  shows "store_ok (update_node i f s)"
proof -
  have k: "map fst (nodes (update_node i f s)) = map fst (nodes s)"
    by (simp add: update_node_def case_prod_beta)
  then have nk: "node_keys (update_node i f s) = node_keys s"
    by (metis node_keys_def set_map)
  have l: "links (update_node i f s) = links s" by (simp add: update_node_def)
  have "\<forall>(k, n) \<in> set (nodes (update_node i f s)). node_id n = k"
    using assms by (auto simp: update_node_def store_ok_def split: if_splits)
  with assms(1) k nk l show ?thesis by (simp add: store_ok_def)
qed

lemma store_ok_update_node_const:
  assumes "store_ok s" "node_id n' = i"
  shows "store_ok (update_node i (\<lambda>m. n') s)"
proof -
  have k: "map fst (nodes (update_node i (\<lambda>m. n') s)) = map fst (nodes s)"
    by (simp add: update_node_def case_prod_beta)
  then have nk: "node_keys (update_node i (\<lambda>m. n') s) = node_keys s"
    by (metis node_keys_def set_map)
  have l: "links (update_node i (\<lambda>m. n') s) = links s" by (simp add: update_node_def)
  have "\<forall>(k, n) \<in> set (nodes (update_node i (\<lambda>m. n') s)). node_id n = k"
    using assms by (auto simp: update_node_def store_ok_def split: if_splits)
  with assms(1) k nk l show ?thesis by (simp add: store_ok_def)
qed

lemma store_ok_moveNode: "store_ok s \<Longrightarrow> store_ok (moveNode i x y s)"
proof -
  assume a: "store_ok s"
  have "moveNode i x y s = update_node i (\<lambda>n. n\<lparr>node_x := x, node_y := y\<rparr>) s"
    by (simp add: moveNode_def update_node_def)
  with store_ok_update_node[OF a, of "\<lambda>n. n\<lparr>node_x := x, node_y := y\<rparr>" i] show ?thesis by simp
qed

lemma store_ok_clearAll: "store_ok (clearAll s)"
  by (simp add: store_ok_def clearAll_def clearSelection_def)

lemma store_ok_clearSelection: "store_ok (clearSelection s) = store_ok s"
  by (rule store_ok_cong) (simp_all add: clearSelection_def)

lemma store_ok_deleteSelected: "store_ok s \<Longrightarrow> store_ok (deleteSelected s)"
  by (simp add: deleteSelected_def store_ok_deleteNode store_ok_deleteLink split: option.splits)

lemma store_ok_sendMessage: "store_ok (sendMessage n m s) = store_ok s"
  by (rule store_ok_cong) (simp_all add: sendMessage_def Let_def)

text \<open>The handlers keep the id of the node they write to.\<close>

lemma node_id_executeDebugNode: "executeDebugNode t n m = Inr n' \<Longrightarrow> node_id n' = node_id n"
  by (auto simp: executeDebugNode_def Let_def split: if_splits)

lemma node_id_executeDataTableNode [simp]: "node_id (executeDataTableNode nt n m) = node_id n"
  by (simp add: executeDataTableNode_def Let_def)

lemma node_id_executeChartNode [simp]: "node_id (executeChartNode nt pf ck n m) = node_id n"
  by (simp add: executeChartNode_def Let_def split: option.splits prod.splits jsval.splits)

lemma node_id_processNetworkData [simp]:
  "node_id (snd (processNetworkData inh nt n d)) = node_id n"
  by (simp add: processNetworkData_def Let_def split: jsval.splits)

lemma node_id_executeGraphVizNode [simp]: "node_id (executeGraphVizNode inh nt n m) = node_id n"
  by (simp add: executeGraphVizNode_def Let_def split: option.splits)

lemma store_ok_receiveMessage: "store_ok s \<Longrightarrow> store_ok (receiveMessage p n m l s)"
  by (auto simp: receiveMessage_def executeFunctionNode_def store_ok_sendMessage
      intro!: store_ok_update_node_const dest: node_id_executeDebugNode split: sum.splits)

lemma store_ok_fireTimer: "store_ok s \<Longrightarrow> store_ok (fireTimer p s)"
proof -
  assume a: "store_ok s"
  show ?thesis
  proof (cases "timers s")
    case Nil
    then show ?thesis using a by (simp add: fireTimer_def)
  next
    case (Cons d rest)
    obtain tn m l where d: "d = (tn, m, l)" by (cases d)
    have "store_ok (s\<lparr>timers := rest\<rparr>)" using a store_ok_cong[of "s\<lparr>timers := rest\<rparr>" s] by simp
    then show ?thesis using Cons d by (simp add: fireTimer_def Let_def store_ok_receiveMessage)
  qed
qed

lemma store_ok_executeNode: "store_ok s \<Longrightarrow> store_ok (executeNode p jp rnd t1 t2 t3 mid n s)"
  by (simp add: executeNode_def executeNetworkDataSimNode_def executeExampleDataNode_def Let_def
      store_ok_sendMessage split: sum.splits)

lemma store_ok_import_nodes: "store_ok s \<Longrightarrow> store_ok (snd (snd (import_nodes ds s)))"
proof (induction ds arbitrary: s)
  case Nil
  then show ?case by simp
next
  case (Cons d ds)
  show ?case
  proof (cases "nullish d")
    case True
    then show ?thesis using Cons.prems by simp
  next
    case False
    from Cons.IH[OF store_ok_createNode[OF Cons.prems]] False show ?thesis
      by (simp add: Let_def split_beta)
  qed
qed

lemma find_node_key:
  assumes "store_ok s" "find P (map snd (nodes s)) = Some a"
  shows "node_id a \<in> node_keys s"
proof -
  from assms(2) have "a \<in> set (map snd (nodes s))" by (auto simp: find_Some_iff)
  then obtain k where k: "(k, a) \<in> set (nodes s)" by auto
  from assms(1) have "\<forall>(k, n) \<in> set (nodes s). node_id n = k" by (simp add: store_ok_def)
  with k have "node_id a = k" by blast
  moreover from k have "k \<in> fst ` set (nodes s)" by (rule image_eqI[rotated]) simp
  ultimately show ?thesis by (simp add: node_keys_def)
qed

lemma store_ok_import_links: "store_ok s \<Longrightarrow> store_ok (snd (import_links ds s))"
proof (induction ds arbitrary: s)
  case Nil
  then show ?case by simp
next
  case (Cons d ds)
  let ?a = "find (\<lambda>n. Str (node_id n) = js_prop d ''source'') (map snd (nodes s))"
  let ?b = "find (\<lambda>n. Str (node_id n) = js_prop d ''target'') (map snd (nodes s))"
  show ?case
  proof (cases "nullish d \<and> nodes s \<noteq> []")
    case True
    then show ?thesis using Cons.prems by simp
  next
    case False
    show ?thesis
    proof (cases "\<exists>a b. ?a = Some a \<and> ?b = Some b")
      case True
      then obtain a b where ab: "?a = Some a" "?b = Some b" by blast
      have "store_ok (snd (createConnection a (js_prop d ''sourcePort'') b (js_prop d ''targetPort'') s))"
        by (rule store_ok_createConnection[OF Cons.prems find_node_key[OF Cons.prems ab(1)]
              find_node_key[OF Cons.prems ab(2)]])
      from Cons.IH[OF this] show ?thesis
        unfolding import_links.simps if_not_P[OF False] Let_def ab by simp
    next
      case no: False
      then have "import_links (d # ds) s = import_links ds s"
        unfolding import_links.simps if_not_P[OF False] Let_def by (cases ?a; cases ?b) simp_all
      with Cons.IH[OF Cons.prems] show ?thesis by simp
    qed
  qed
qed

lemma store_ok_importFlow: "store_ok s \<Longrightarrow> store_ok (snd (importFlow parsed s))"
proof (cases parsed)
  case (Inl e)
  assume "store_ok s"
  with Inl show ?thesis by (simp add: importFlow_def)
next
  case (Inr flow)
  show ?thesis
  proof (cases "nullish flow")
    case True
    with Inr show ?thesis by (simp add: importFlow_def Let_def store_ok_clearAll)
  next
    case False
    show ?thesis
    proof (cases "\<exists>ds. js_prop flow ''nodes'' = Arr ds")
      case False
      with \<open>\<not> nullish flow\<close> Inr show ?thesis
        by (cases "js_prop flow ''nodes''") (simp_all add: importFlow_def Let_def store_ok_clearAll)
    next
      case True
      then obtain ds where ds: "js_prop flow ''nodes'' = Arr ds" by blast
      obtain e rs s2 where r: "import_nodes ds (clearAll s) = (e, rs, s2)"
        by (cases "import_nodes ds (clearAll s)")
      from store_ok_import_nodes[OF store_ok_clearAll, of ds s] r have s2: "store_ok s2" by simp
      show ?thesis
      proof (cases e)
        case (Some err)
        with \<open>\<not> nullish flow\<close> ds r Inr s2 show ?thesis by (simp add: importFlow_def Let_def)
      next
        case None
        show ?thesis
        proof (cases "\<exists>ls. js_prop flow ''links'' = Arr ls")
          case False
          with None \<open>\<not> nullish flow\<close> ds r Inr s2 show ?thesis
            by (cases "js_prop flow ''links''") (simp_all add: importFlow_def Let_def)
        next
          case True
          then obtain ls where ls: "js_prop flow ''links'' = Arr ls" by blast
          with None \<open>\<not> nullish flow\<close> ds r Inr store_ok_import_links[OF s2, of ls]
          show ?thesis by (simp add: importFlow_def Let_def)
        qed
      qed
    qed
  qed
qed

lemma store_ok_endConnection: "store_ok (endConnection s) = store_ok s"
  by (rule store_ok_cong) (simp_all add: endConnection_def)

lemma node_keys_endConnection [simp]: "node_keys (endConnection s) = node_keys s"
  by (simp add: node_keys_def endConnection_def)

lemma mouseUp_idle: "\<not> isConnecting s \<Longrightarrow> onConnectionMouseUp tgt s = s"
  by (simp add: onConnectionMouseUp_def)

lemma mouseUp_elsewhere:
  "isConnecting s \<Longrightarrow> onConnectionMouseUp OtherElement s = endConnection s"
  "isConnecting s \<Longrightarrow> onConnectionMouseUp (PortElement tid OutputPort k) s = endConnection s"
  by (simp_all add: onConnectionMouseUp_def)

lemma mouseUp_absent:
  "isConnecting s \<Longrightarrow> map_of (nodes s) tid = None \<Longrightarrow>
   onConnectionMouseUp (PortElement tid InputPort k) s = endConnection s"
  by (simp add: onConnectionMouseUp_def)

lemma mouseUp_no_gesture:
  "isConnecting s \<Longrightarrow> map_of (nodes s) tid = Some b \<Longrightarrow> connection s = None \<Longrightarrow>
   onConnectionMouseUp (PortElement tid InputPort k) s = s"
  by (simp add: onConnectionMouseUp_def)

lemma mouseUp_no_source:
  "isConnecting s \<Longrightarrow> map_of (nodes s) tid = Some b \<Longrightarrow> connection s = Some start \<Longrightarrow>
   cs_node start = None \<Longrightarrow>
   onConnectionMouseUp (PortElement tid InputPort k) s = s\<lparr>linkCounter := linkCounter s + 1\<rparr>"
  by (simp add: onConnectionMouseUp_def)

lemma mouseUp_same_node:
  "isConnecting s \<Longrightarrow> map_of (nodes s) tid = Some b \<Longrightarrow> connection s = Some start \<Longrightarrow>
   cs_node start = Some a \<Longrightarrow> node_id b = node_id a \<Longrightarrow>
   onConnectionMouseUp (PortElement tid InputPort k) s = endConnection s"
  by (simp add: onConnectionMouseUp_def)

lemma mouseUp_connect:
  "isConnecting s \<Longrightarrow> map_of (nodes s) tid = Some b \<Longrightarrow> connection s = Some start \<Longrightarrow>
   cs_node start = Some a \<Longrightarrow> node_id b \<noteq> node_id a \<Longrightarrow>
   onConnectionMouseUp (PortElement tid InputPort k) s =
     endConnection (snd (createConnection a (Num (of_nat (cs_port start))) b (Num (of_nat k)) s))"
  by (simp add: onConnectionMouseUp_def)

lemma store_ok_onConnectionMouseUp:
  assumes "store_ok s" "call_ok (ConnectionMouseUp tgt) s"
  shows "store_ok (onConnectionMouseUp tgt s)"
proof (cases "isConnecting s")
  case False
  then show ?thesis using assms(1) by (simp add: mouseUp_idle)
next
  case True
  show ?thesis
  proof (cases "\<exists>tid k. tgt = PortElement tid InputPort k")
    case False
    then have "tgt = OtherElement \<or> (\<exists>tid k. tgt = PortElement tid OutputPort k)"
      by (cases tgt) (auto intro: portType.exhaust)
    then have "onConnectionMouseUp tgt s = endConnection s"
      using True by (auto simp: mouseUp_elsewhere)
    with assms(1) show ?thesis by (simp add: store_ok_endConnection)
  next
    case tg: True
    then obtain tid k where tgt: "tgt = PortElement tid InputPort k" by blast
    show ?thesis
    proof (cases "map_of (nodes s) tid")
      case None
      have e: "onConnectionMouseUp tgt s = endConnection s"
        unfolding tgt by (rule mouseUp_absent[OF True None])
      show ?thesis unfolding e store_ok_endConnection by (rule assms(1))
    next
      case (Some b)
      then have mem: "(tid, b) \<in> set (nodes s)" by (rule map_of_SomeD)
      from assms(1) have "\<forall>(k, n) \<in> set (nodes s). node_id n = k" by (simp add: store_ok_def)
      with mem have "node_id b = tid" by blast
      moreover from mem have "tid \<in> fst ` set (nodes s)" by (rule image_eqI[rotated]) simp
      ultimately have bk: "node_id b \<in> node_keys s" by (simp add: node_keys_def)
      show ?thesis
      proof (cases "connection s")
        case None
        have e: "onConnectionMouseUp tgt s = s"
          unfolding tgt by (rule mouseUp_no_gesture[OF True Some None])
        show ?thesis unfolding e by (rule assms(1))
      next
        case cs: (Some start)
        show ?thesis
        proof (cases "cs_node start")
          case None
          have c: "store_ok (s\<lparr>linkCounter := linkCounter s + 1\<rparr>) = store_ok s"
            by (rule store_ok_cong) simp_all
          have e: "onConnectionMouseUp tgt s = s\<lparr>linkCounter := linkCounter s + 1\<rparr>"
            unfolding tgt by (rule mouseUp_no_source[OF True Some cs None])
          show ?thesis unfolding e c by (rule assms(1))
        next
          case sn: (Some a)
          have ak: "node_id a \<in> node_keys s" using assms(2) by (simp add: cs sn)
          show ?thesis
          proof (cases "node_id b = node_id a")
            case same: True
            have e: "onConnectionMouseUp tgt s = endConnection s"
              unfolding tgt by (rule mouseUp_same_node[OF True Some cs sn same])
            show ?thesis unfolding e store_ok_endConnection by (rule assms(1))
          next
            case diff: False
            have e: "onConnectionMouseUp tgt s =
                endConnection (snd (createConnection a (Num (of_nat (cs_port start))) b
                                      (Num (of_nat k)) s))"
              unfolding tgt by (rule mouseUp_connect[OF True Some cs sn diff])
            show ?thesis unfolding e store_ok_endConnection
              by (rule store_ok_createConnection[OF assms(1) ak bk])
          qed
        qed
      qed
    qed
  qed
qed

lemma store_ok_onNodeMouseDown: "store_ok (onNodeMouseDown i s) = store_ok s"
  by (rule store_ok_cong)
     (simp_all add: onNodeMouseDown_def selectNode_def clearSelection_def split: option.splits)

lemma store_ok_onPortMouseDown: "store_ok (onPortMouseDown i pt k s) = store_ok s"
  by (rule store_ok_cong) (simp_all add: onPortMouseDown_def startConnection_def)

lemma store_ok_onKeyDown: "store_ok s \<Longrightarrow> store_ok (onKeyDown key s)"
  by (simp add: onKeyDown_def store_ok_deleteSelected store_ok_clearSelection
      store_ok_endConnection Let_def)

lemma store_ok_saveNodeConfig: "store_ok s \<Longrightarrow> store_ok (saveNodeConfig t i fv x y s)"
  by (cases i) (simp_all add: saveNodeConfig_def store_ok_createNode store_ok_update_node)

lemma store_ok_editField: "store_ok s \<Longrightarrow> store_ok (editField i k v s)"
  unfolding editField_def by (rule store_ok_update_node) simp_all

lemma store_ok_clearDebugOutput: "store_ok s \<Longrightarrow> store_ok (clearDebugOutput i s)"
  unfolding clearDebugOutput_def by (rule store_ok_update_node) (simp_all split: option.splits)

lemma store_ok_clearTableData: "store_ok s \<Longrightarrow> store_ok (clearTableData i s)"
  unfolding clearTableData_def by (rule store_ok_update_node) simp_all

lemma store_ok_clearGraphData: "store_ok s \<Longrightarrow> store_ok (clearGraphData i s)"
  unfolding clearGraphData_def by (rule store_ok_update_node) simp_all

lemma store_ok_clearNetworkData: "store_ok s \<Longrightarrow> store_ok (clearNetworkData i s)"
  unfolding clearNetworkData_def by (rule store_ok_update_node) simp_all

text \<open>
  Every call of a session keeps a well-formed store well-formed, in particular the ends of
  every link in the store, when the node objects it is handed are in the store:
  \<open>createConnection\<close> called directly, and the release of a connect gesture, whose source
  node was remembered when the gesture began.
\<close>

lemma store_ok_exec:
  assumes "store_ok s" "call_ok c s"
  shows "store_ok (exec c s)"
proof (cases c)
  case (CreateNode t x y cf)
  with assms(1) show ?thesis by (simp add: store_ok_createNode)
next
  case (CreateConnection a i b j)
  with assms show ?thesis by (simp add: store_ok_createConnection)
next
  case (DeleteNode i)
  with assms(1) show ?thesis by (simp add: store_ok_deleteNode)
next
  case (DeleteLink i)
  with assms(1) show ?thesis by (simp add: store_ok_deleteLink)
next
  case (MoveNode i x y)
  with assms(1) show ?thesis by (simp add: store_ok_moveNode)
next
  case ClearAll
  then show ?thesis by (simp add: store_ok_clearAll)
next
  case (ImportFlow parsed)
  with assms(1) show ?thesis by (simp add: store_ok_importFlow)
next
  case (NodeMouseDown i)
  with assms(1) show ?thesis by (simp add: store_ok_onNodeMouseDown)
next
  case (PortMouseDown i pt k)
  with assms(1) show ?thesis by (simp add: store_ok_onPortMouseDown)
next
  case (ConnectionMouseUp tgt)
  with assms show ?thesis by (simp add: store_ok_onConnectionMouseUp)
next
  case (KeyDown key)
  with assms(1) show ?thesis by (simp add: store_ok_onKeyDown)
next
  case (SaveNodeConfig t i fv x y)
  with assms(1) show ?thesis by (simp add: store_ok_saveNodeConfig)
next
  case (EditField i k v)
  with assms(1) show ?thesis by (simp add: store_ok_editField)
next
  case (ClearDebugOutput i)
  with assms(1) show ?thesis by (simp add: store_ok_clearDebugOutput)
next
  case (ClearTableData i)
  with assms(1) show ?thesis by (simp add: store_ok_clearTableData)
next
  case (ClearGraphData i)
  with assms(1) show ?thesis by (simp add: store_ok_clearGraphData)
next
  case (ClearNetworkData i)
  with assms(1) show ?thesis by (simp add: store_ok_clearNetworkData)
next
  case (ExecuteNode p jp rnd t1 t2 t3 mid n)
  with assms(1) show ?thesis by (simp add: store_ok_executeNode)
next
  case (FireTimer p)
  with assms(1) show ?thesis by (simp add: store_ok_fireTimer)
qed

text \<open>
  The part of C4 about \<open>deleteNode\<close> itself holds. For a node that is in the store,
  \<open>deleteNode\<close> removes the node and the links whose source or target it is: no link that
  refers to it is left. When the link map holds one entry per key, as a \<open>Map\<close> does, the
  links left are exactly the ones that do not refer to the node.
\<close>

lemma deleteNode_cascade:
  assumes "map_of (nodes s) i = Some n"
  shows "nodes (deleteNode i s) = AList.delete i (nodes s)"
    and "i \<notin> node_keys (deleteNode i s)"
    and "filter (\<lambda>(k, l). source l = i \<or> target l = i) (links (deleteNode i s)) = []"
    and "distinct (map fst (links s)) \<Longrightarrow>
         links (deleteNode i s) = filter (\<lambda>(k, l). source l \<noteq> i \<and> target l \<noteq> i) (links s)"
proof -
  show N: "nodes (deleteNode i s) = AList.delete i (nodes s)" by (rule nodes_deleteNode)
  show "i \<notin> node_keys (deleteNode i s)" by (simp add: node_keys_def N delete_notin_dom)
  show "filter (\<lambda>(k, l). source l = i \<or> target l = i) (links (deleteNode i s)) = []"
    unfolding links_deleteNode_present[OF assms] by (auto simp: filter_empty_conv)
  show "distinct (map fst (links s)) \<Longrightarrow>
         links (deleteNode i s) = filter (\<lambda>(k, l). source l \<noteq> i \<and> target l \<noteq> i) (links s)"
    by (rule links_deleteNode_distinct[OF assms])
qed

lemmas eval_gesture = onNodeMouseDown_def selectNode_def onPortMouseDown_def startConnection_def
  onConnectionMouseUp_def endConnection_def onKeyDown_def deleteSelected_def deleteNode_def
  deleteLink_def

lemma three_nodes_shape:
  "map fst (nodes three_nodes) = [''node_1'', ''node_2'', ''node_3'']"
  "map (\<lambda>p. (source (snd p), target (snd p))) (links three_nodes)
     = [(''node_1'', ''node_2''), (''node_2'', ''node_3'')]"
  by (simp_all add: three_nodes_def eval_store eval_gesture)

text \<open>
  At the chain of three nodes, which is a well-formed store, deleting the middle node
  removes both links and leaves a well-formed store.
\<close>

lemma deleteNode_cascade_example:
  "store_ok three_nodes
   \<and> ''node_2'' \<in> node_keys three_nodes
   \<and> ''node_2'' \<notin> node_keys (deleteNode ''node_2'' three_nodes)
   \<and> links (deleteNode ''node_2'' three_nodes) = []
   \<and> store_ok (deleteNode ''node_2'' three_nodes)"
proof -
  have ok: "store_ok three_nodes"
    by (simp add: store_ok_def node_keys_def three_nodes_def eval_store eval_gesture)
  have "node_keys three_nodes = set (map fst (nodes three_nodes))" by (simp add: node_keys_def)
  then have mem: "''node_2'' \<in> node_keys three_nodes" by (simp only: three_nodes_shape) simp
  then obtain n where n: "map_of (nodes three_nodes) ''node_2'' = Some n"
    by (cases "map_of (nodes three_nodes) ''node_2''")
       (simp_all add: node_keys_def map_of_eq_None_iff)
  from ok have d: "distinct (map fst (links three_nodes))" by (simp add: store_ok_def)
  have l: "filter (\<lambda>(k, l). source l \<noteq> ''node_2'' \<and> target l \<noteq> ''node_2'') (links three_nodes) = []"
    by (simp add: three_nodes_def eval_store eval_gesture)
  have so: "store_ok (deleteNode ''node_2'' three_nodes)"
    using store_ok_exec[OF ok, of "DeleteNode ''node_2''"] by simp
  from deleteNode_cascade(2)[OF n] deleteNode_cascade(4)[OF n d] l ok mem so
  show ?thesis by simp
qed

text \<open>
  C4, at an input where the code departs from it. Two nodes are made; \<open>node_1\<close> is selected
  and a connect gesture is begun on its output port. The Escape key ends a gesture in
  progress, in every state. The Delete key deletes the selected node and leaves the
  gesture in progress, with the deleted node as its source. When the pointer is then
  released over the input port of \<open>node_2\<close>, \<open>link_1\<close> from \<open>node_1\<close> to \<open>node_2\<close> is stored,
  and \<open>node_1\<close> is not in the store.
\<close>

theorem delete_key_leaves_dangling_link:
  "isConnecting (onKeyDown ''Escape'' s) = False
   \<and> selectedNode gesture_begun = Some ''node_1''
   \<and> isConnecting gesture_begun = True
   \<and> isConnecting (onKeyDown ''Delete'' gesture_begun) = True
   \<and> map fst (nodes (onKeyDown ''Delete'' gesture_begun)) = [''node_2'']
   \<and> map fst (nodes stale_gesture) = [''node_2'']
   \<and> map fst (links stale_gesture) = [''link_1'']
   \<and> map (source \<circ> snd) (links stale_gesture) = [''node_1'']
   \<and> map (target \<circ> snd) (links stale_gesture) = [''node_2'']"
proof -
  have e: "isConnecting (onKeyDown ''Escape'' s) = False"
    by (simp add: onKeyDown_def endConnection_def clearSelection_def Let_def)
  have g: "selectedNode gesture_begun = Some ''node_1''" "isConnecting gesture_begun = True"
    "isConnecting (onKeyDown ''Delete'' gesture_begun) = True"
    "map fst (nodes (onKeyDown ''Delete'' gesture_begun)) = [''node_2'']"
    by (simp_all add: gesture_begun_def eval_store eval_gesture)
  have t: "map fst (nodes stale_gesture) = [''node_2'']"
    "map fst (links stale_gesture) = [''link_1'']"
    "map (source \<circ> snd) (links stale_gesture) = [''node_1'']"
    "map (target \<circ> snd) (links stale_gesture) = [''node_2'']"
    by (simp_all add: stale_gesture_def gesture_begun_def eval_store eval_gesture)
  from e g t show ?thesis by simp
qed

section \<open>Creating links\<close>





section \<open>Export followed by import\<close>

lemmas eval_import = exportFlow_def

text \<open>
  C1, at an input where the code departs from it. The store holds \<open>node_2\<close> (function) and
  \<open>node_3\<close> (debug) and a link from \<open>node_2\<close> to \<open>node_3\<close>. Importing its export into a new editor
  reports no error, gives the two nodes the ids \<open>node_1\<close> and \<open>node_2\<close>, and creates no link:
  \<open>importFlow\<close> looks the link's endpoints up by the exported ids, but \<open>createNode\<close> has
  numbered the nodes anew.
\<close>

theorem export_import_renumbers_nodes:
  "map fst (nodes deleted_first) = [''node_2'', ''node_3'']
   \<and> map (node_type \<circ> snd) (nodes deleted_first) = [Str ''function'', Str ''debug'']
   \<and> map (source \<circ> snd) (links deleted_first) = [''node_2'']
   \<and> map (target \<circ> snd) (links deleted_first) = [''node_3'']
   \<and> fst (importFlow (Inr (exportFlow deleted_first)) new_editor) = None
   \<and> map fst (nodes (snd (importFlow (Inr (exportFlow deleted_first)) new_editor)))
       = [''node_1'', ''node_2'']
   \<and> map (node_type \<circ> snd) (nodes (snd (importFlow (Inr (exportFlow deleted_first)) new_editor)))
       = [Str ''function'', Str ''debug'']
   \<and> links (snd (importFlow (Inr (exportFlow deleted_first)) new_editor)) = []"
  by (simp add: deleted_first_def eval_store eval_gesture eval_import)

section \<open>Import of a malformed document\<close>

text \<open>
  C3 (as amended). When \<open>JSON.parse\<close> rejects the text, \<open>importFlow\<close> reports the error and
  leaves the editor as it was. Once the text has parsed, the store is cleared before the
  document is read: the outcome is the one of importing into the cleared editor, and a
  document that is \<open>null\<close> or has no \<open>nodes\<close> list leaves the cleared editor with the
  error reported.
\<close>

theorem importFlow_clears_before_reading:
  "importFlow (Inl e) s = (Some e, s)
   \<and> importFlow (Inr flow) s = importFlow (Inr flow) (clearAll s)
   \<and> (nullish flow \<or> (\<forall>ds. js_prop flow ''nodes'' \<noteq> Arr ds) \<longrightarrow>
        importFlow (Inr flow) s = (Some TypeError, clearAll s))"
proof -
  have 1: "importFlow (Inl e) s = (Some e, s)" by (simp add: importFlow_def)
  have c: "clearAll (clearAll s) = clearAll s" by (simp add: clearAll_def clearSelection_def)
  have 2: "importFlow (Inr flow) s = importFlow (Inr flow) (clearAll s)"
    by (simp add: importFlow_def c)
  have 3: "nullish flow \<or> (\<forall>ds. js_prop flow ''nodes'' \<noteq> Arr ds) \<longrightarrow>
        importFlow (Inr flow) s = (Some TypeError, clearAll s)"
    by (cases "js_prop flow ''nodes''") (auto simp: importFlow_def Let_def)
  from 1 2 3 show ?thesis by blast
qed

text \<open>
  The statement at the chain of three nodes: a text that does not parse, and the document
  \<open>{"flows": []}\<close>.
\<close>

theorem importFlow_clears_before_reading_witness:
  "importFlow (Inl SyntaxError) three_nodes = (Some SyntaxError, three_nodes)
   \<and> fst (importFlow (Inr (Obj [(''flows'', Arr [])])) three_nodes) = Some TypeError
   \<and> nodes (snd (importFlow (Inr (Obj [(''flows'', Arr [])])) three_nodes)) = []
   \<and> links (snd (importFlow (Inr (Obj [(''flows'', Arr [])])) three_nodes)) = []"
proof -
  have h: "\<forall>ds. js_prop (Obj [(''flows'', Arr [])]) ''nodes'' \<noteq> Arr ds"
    by (simp add: js_prop_def)
  from importFlow_clears_before_reading[of SyntaxError three_nodes "Obj [(''flows'', Arr [])]"] h
  have 1: "importFlow (Inl SyntaxError) three_nodes = (Some SyntaxError, three_nodes)"
    and 3: "importFlow (Inr (Obj [(''flows'', Arr [])])) three_nodes
            = (Some TypeError, clearAll three_nodes)"
    by blast+
  show ?thesis unfolding 1 3 by (simp add: clearAll_def clearSelection_def)
qed

text \<open>
  C3 as stated fails: a document with a \<open>nodes\<close> list and no \<open>links\<close> list is reported as an
  error, yet the three nodes the store held are gone and the node of the document is in.
\<close>

theorem import_partially_applied_counterexample:
  "map fst (nodes three_nodes) = [''node_1'', ''node_2'', ''node_3'']
   \<and> fst (importFlow (Inr (Obj [(''nodes'', Arr [Obj [(''id'', Str ''node_1''),
                (''type'', Str ''debug''), (''x'', Num 10), (''y'', Num 20),
                (''config'', Obj [])]])])) three_nodes) = Some TypeError
   \<and> map fst (nodes (snd (importFlow (Inr (Obj [(''nodes'', Arr [Obj [(''id'', Str ''node_1''),
                (''type'', Str ''debug''), (''x'', Num 10), (''y'', Num 20),
                (''config'', Obj [])]])])) three_nodes))) = [''node_4'']
   \<and> links (snd (importFlow (Inr (Obj [(''nodes'', Arr [Obj [(''id'', Str ''node_1''),
                (''type'', Str ''debug''), (''x'', Num 10), (''y'', Num 20),
                (''config'', Obj [])]])])) three_nodes)) = []"
  by (simp add: three_nodes_def eval_store eval_gesture eval_import)

section \<open>The function node\<close>

lemma fold_update_fresh:
  "distinct (map fst (acc @ kv)) \<Longrightarrow> fold (\<lambda>(k, w). AList.update k w) kv acc = acc @ kv"
proof (induction kv arbitrary: acc)
  case Nil
  then show ?case by simp
next
  case (Cons p kv)
  obtain k w where p: "p = (k, w)" by (cases p)
  from Cons.prems have nk: "k \<notin> fst ` set acc" by (auto simp: p)
  have u: "AList.update k w acc = acc @ [(k, w)]" using nk by (induction acc) auto
  from Cons.prems have "distinct (map fst ((acc @ [(k, w)]) @ kv))" by (simp add: p)
  from Cons.IH[OF this] show ?case by (simp add: p u)
qed

lemma spread_copy: "distinct (map fst kv) \<Longrightarrow> spread [] (Obj kv) = enum_order kv"
  using fold_update_fresh[of "[]" kv] by (simp add: spread_def)

lemma sendMessage_timers:
  "timers (sendMessage n m s) = timers s @ map (\<lambda>(t, l). (t, m, l)) (deliveries n s)"
proof -
  have "\<And>ls. concat (map (\<lambda>l. case map_of (nodes s) (target l) of None \<Rightarrow> []
                                  | Some t \<Rightarrow> [(t, m, l)]) ls)
        = map (\<lambda>(t, l). (t, m, l))
            (concat (map (\<lambda>l. case map_of (nodes s) (target l) of None \<Rightarrow> [] | Some t \<Rightarrow> [(t, l)]) ls))"
  proof -
    fix ls show "concat (map (\<lambda>l. case map_of (nodes s) (target l) of None \<Rightarrow> []
                                  | Some t \<Rightarrow> [(t, m, l)]) ls)
        = map (\<lambda>(t, l). (t, m, l))
            (concat (map (\<lambda>l. case map_of (nodes s) (target l) of None \<Rightarrow> [] | Some t \<Rightarrow> [(t, l)]) ls))"
      by (induction ls) (auto split: option.splits)
  qed
  then show ?thesis by (simp add: sendMessage_def deliveries_def Let_def)
qed

text \<open>
  C7 (as amended). A function node that receives a message object forwards a copy with
  every field as received: each of its outgoing links whose target is in the store gets one
  delivery, and the message delivered equals the one received. Its \<open>source\<close> field is
  therefore what it was on arrival and is not set to the id of the forwarding node. The
  store is left as it was. (A message object lists each of its keys once and in
  enumeration order.)
\<close>

theorem function_node_forwards_unchanged:
  assumes "distinct (map fst kv)" and "enum_order kv = kv"
  shows "timers (executeFunctionNode n (Obj kv) s)
           = timers s @ map (\<lambda>(t, l). (t, Obj kv, l)) (deliveries n s)
         \<and> (\<forall>d \<in> set (drop (length (timers s)) (timers (executeFunctionNode n (Obj kv) s))).
               fst (snd d) = Obj kv
               \<and> js_prop (fst (snd d)) ''source'' = js_prop (Obj kv) ''source'')
         \<and> nodes (executeFunctionNode n (Obj kv) s) = nodes s
         \<and> links (executeFunctionNode n (Obj kv) s) = links s"
proof -
  have e: "executeFunctionNode n (Obj kv) s = sendMessage n (Obj kv) s"
    by (simp add: executeFunctionNode_def spread_copy[OF assms(1)] assms(2))
  have t: "timers (executeFunctionNode n (Obj kv) s)
           = timers s @ map (\<lambda>(t, l). (t, Obj kv, l)) (deliveries n s)"
    by (simp add: e sendMessage_timers)
  have d: "\<forall>d \<in> set (drop (length (timers s)) (timers (executeFunctionNode n (Obj kv) s))).
               fst (snd d) = Obj kv
               \<and> js_prop (fst (snd d)) ''source'' = js_prop (Obj kv) ''source''"
    by (auto simp: t)
  have nl: "nodes (executeFunctionNode n (Obj kv) s) = nodes s"
           "links (executeFunctionNode n (Obj kv) s) = links s"
    by (simp_all add: e sendMessage_def Let_def)
  from t d nl show ?thesis by blast
qed

text \<open>
  The statement at the chain of three nodes: the function node \<open>node_2\<close> receives a message
  made by \<open>node_1\<close> and delivers it to \<open>node_3\<close> with \<open>node_1\<close> as its source; it receives a
  message of the network simulation and delivers it with no source.
\<close>

theorem function_node_forwards_unchanged_witness:
  "distinct (map fst msg_from_node_1) \<and> enum_order msg_from_node_1 = msg_from_node_1
   \<and> map (fst \<circ> snd) (timers (executeFunctionNode fn2_node (Obj msg_from_node_1) three_nodes))
       = [Obj msg_from_node_1]
   \<and> map (node_id \<circ> fst) (timers (executeFunctionNode fn2_node (Obj msg_from_node_1) three_nodes))
       = [''node_3'']
   \<and> js_prop (Obj msg_from_node_1) ''source'' = Str ''node_1''
   \<and> map (fst \<circ> snd) (timers (executeFunctionNode fn2_node (Obj msg_from_simulation) three_nodes))
       = [Obj msg_from_simulation]
   \<and> js_prop (Obj msg_from_simulation) ''source'' = Undefined"
proof -
  have d: "distinct (map fst msg_from_node_1)" by (simp add: msg_from_node_1_def)
  have o: "enum_order msg_from_node_1 = msg_from_node_1"
    by (simp add: msg_from_node_1_def enum_order_def index_key_not_digit)
  have d': "distinct (map fst msg_from_simulation)" by (simp add: msg_from_simulation_def)
  have o': "enum_order msg_from_simulation = msg_from_simulation"
    by (simp add: msg_from_simulation_def enum_order_def index_key_not_digit)
  have t: "timers three_nodes = []" by (simp add: three_nodes_def eval_store eval_gesture)
  have v: "map (node_id \<circ> fst) (deliveries fn2_node three_nodes) = [''node_3'']"
    by (simp add: deliveries_def fn2_node_def three_nodes_def eval_store eval_gesture)
  then obtain x where x: "deliveries fn2_node three_nodes = [x]"
    by (cases "deliveries fn2_node three_nodes") auto
  have s1: "js_prop (Obj msg_from_node_1) ''source'' = Str ''node_1''"
    by (simp add: msg_from_node_1_def js_prop_def)
  have s2: "js_prop (Obj msg_from_simulation) ''source'' = Undefined"
    by (simp add: msg_from_simulation_def js_prop_def)
  from function_node_forwards_unchanged[OF d o, of fn2_node three_nodes]
    function_node_forwards_unchanged[OF d' o', of fn2_node three_nodes] t v x d o s1 s2
  show ?thesis by (simp add: case_prod_beta)
qed

text \<open>
  C7 as stated fails: the message \<open>node_2\<close> forwards still names \<open>node_1\<close> as its source.
\<close>

theorem function_node_keeps_source_counterexample:
  "map_of (nodes three_nodes) ''node_2'' = Some fn2_node
   \<and> map (fst \<circ> snd)
         (timers (executeFunctionNode fn2_node
            (Obj [(''payload'', Num 1), (''topic'', Str ''exampleData''),
                  (''timestamp'', Str ''2024-01-01T00:00:00.000Z''),
                  (''source'', Str ''node_1'')]) three_nodes))
       = [Obj [(''payload'', Num 1), (''topic'', Str ''exampleData''),
               (''timestamp'', Str ''2024-01-01T00:00:00.000Z''),
               (''source'', Str ''node_1'')]]"
  by (simp add: executeFunctionNode_def sendMessage_def fn2_node_def three_nodes_def
      eval_store eval_gesture)

section \<open>The data table in append mode\<close>











section \<open>The graph visualisation node\<close>
























section \<open>The network data generator\<close>




























lemma double53_whole:
  "double53 0 = 0" "double53 1 = 1" "double53 2 = 2" "double53 3 = 3" "double53 4 = 4"
  "double53 5 = 5" "double53 6 = 6" "double53 7 = 7" "double53 28 = 28" "double53 56 = 56"
  by code_simp+

lemma double53_three_tenths: "double53 (3 / 10) = 5404319552844595 / 18014398509481984"
  by code_simp



lemma target_links_third: "target_links double53 3 third = 1"
  by code_simp


text \<open>
  The statement at \<open>N = 8\<close> and \<open>c = 0.3\<close>, where \<open>T = 8\<close>: with the draws of \<open>rnd_cycle\<close> the
  generator makes eight links, the second one at the third attempt of its round.
\<close>

lemmas eval_generator = generateNetworkData_def gen_node_def gen_id_def gen_link_def
  draw_pair.simps pairKey_def int_text_def node_at_def js_prop_def Let_def dec.simps upt_rec



text \<open>
  The floor is taken of the double product: for three nodes and the connectivity
  \<open>0.3333333333333333\<close>, a double below one third, the product is the double 1 and the
  generator aims at one link, which it makes when the first draw is the pair (0,1). For 25
  nodes and the connectivity \<open>0.41\<close> the product is a double below 123, and the generator
  aims at 122 links.
\<close>

lemma generator_floor_of_double_example:
  "third < 1 / 3 \<and> \<lfloor>3 * third\<rfloor> = 0 \<and> double53 third = third
   \<and> target_links double53 3 third = 1
   \<and> \<lfloor>300 * (41 / 100 :: rat)\<rfloor> = 123
   \<and> target_links double53 25 (double53 (41 / 100)) = 122
   \<and> (case generateNetworkData double53 rnd_halves (Str ''random'') 3 third False of
         Inl e \<Rightarrow> False
       | Inr g \<Rightarrow>
           map (\<lambda>l. (js_prop l ''source'', js_prop l ''target'')) (g_edges g)
             = [(Str ''node_0'', Str ''node_1'')]
           \<and> g_attempts g = [1])"
proof -
  have a: "third < 1 / 3" by (simp add: third_def)
  have b: "\<lfloor>3 * third\<rfloor> = 0" by (rule floor_unique) (simp_all add: third_def)
  have c: "double53 third = third" by code_simp
  have d: "double53 (3 / 2) = 3 / 2" by code_simp
  have f: "\<lfloor>3 / 2 :: rat\<rfloor> = 1" by (rule floor_unique) simp_all
  have e: "case generateNetworkData double53 rnd_halves (Str ''random'') 3 third False of
         Inl e \<Rightarrow> False
       | Inr g \<Rightarrow>
           map (\<lambda>l. (js_prop l ''source'', js_prop l ''target'')) (g_edges g)
             = [(Str ''node_0'', Str ''node_1'')]
           \<and> g_attempts g = [1]"
    by (simp add: eval_generator target_links_third rnd_halves_def double53_whole d f)
  have g: "\<lfloor>300 * (41 / 100 :: rat)\<rfloor> = 123" by (rule floor_unique) simp_all
  have h: "target_links double53 25 (double53 (41 / 100)) = 122" by code_simp
  from a b c target_links_third g h e show ?thesis by blast
qed


end
